theory Spec2Isabelle
  imports Complex_Main
begin

section \<open>JavaScript values as the handlers use them\<close>

text \<open>
  The server (\<^verbatim>\<open>server.js\<close>) reads the fields of a JSON request body and hands them to
  prepared statements of \<^verbatim>\<open>db.js\<close>. A JavaScript number is an IEEE 754 double: NaN, one
  of the two infinities, or a finite value, which \<open>Fin\<close> carries as the rational it is equal
  to. Every operation on finite numbers computes the exact result and rounds it to a
  double (\<open>round_double\<close> below), as IEEE 754 prescribes for \<^verbatim>\<open>+\<close>, \<^verbatim>\<open>-\<close> and \<^verbatim>\<open>*\<close>, so
  what the arithmetic and \<^verbatim>\<open>parseFloat\<close> return is a double, an infinity or NaN (lemma
  \<open>round_double_range\<close>), and a double is returned as it is (lemma \<open>round_double_double\<close>).

  The two zeros of IEEE 754 are one value here, \<open>Fin 0\<close>. The operations the handlers
  apply to numbers (\<^verbatim>\<open>+\<close>, \<^verbatim>\<open>-\<close>, \<^verbatim>\<open>*\<close>, \<^verbatim>\<open>Math.max\<close>, the truth test of \<^verbatim>\<open>||\<close>) give
  the same result for both zeros up to the sign of a zero result, and the JSON text of a
  response writes both as \<^verbatim>\<open>0\<close>.
\<close>

datatype jsnum = Fin rat | PInf | NInf | NaN

fun js_neg :: "jsnum \<Rightarrow> jsnum" where
  "js_neg (Fin a) = Fin (- a)"
| "js_neg PInf = NInf"
| "js_neg NInf = PInf"
| "js_neg NaN = NaN"

subsection \<open>Rounding to a double\<close>

text \<open>
  The finite doubles are the numbers \<open>m \<times> 2\<^sup>e\<close> with \<open>m\<close> an integer, \<open>\<bar>m\<bar> < 2\<^bsup>53\<^esup>\<close> and
  \<open>-1074 \<le> e \<le> 971\<close>. \<open>pow2 e\<close> is \<open>2\<^sup>e\<close> for an integer \<open>e\<close>, and \<open>flog2 x\<close> is the
  integer \<open>k\<close> with \<open>2\<^sup>k \<le> x < 2\<^bsup>k+1\<^esup>\<close> for a positive \<open>x\<close> (lemma \<open>flog2_bounds\<close>).
\<close>

definition pow2 :: "int \<Rightarrow> rat" where
  "pow2 e = (if 0 \<le> e then 2 ^ nat e else 1 / 2 ^ nat (- e))"

text \<open>
  \<open>bits x\<close> is the number of binary digits of a positive integer \<open>x\<close>, so that
  \<open>2\<^bsup>bits x - 1\<^esup> \<le> x < 2\<^bsup>bits x\<^esup>\<close> (lemma \<open>bits_bounds\<close>).
\<close>

fun bit_length :: "nat \<Rightarrow> nat" where
  "bit_length n = (if n = 0 then 0 else bit_length (n div 2) + 1)"

definition bits :: "int \<Rightarrow> int" where
  "bits x = int (bit_length (nat x))"

definition flog2 :: "rat \<Rightarrow> int" where
  "flog2 x = (if 1 \<le> x then bits \<lfloor>x\<rfloor> - 1 else - bits (\<lceil>1 / x\<rceil> - 1))"

text \<open>The integer nearest to \<open>x\<close>; of two equally near integers, the even one.\<close>

definition round_even :: "rat \<Rightarrow> int" where
  "round_even x =
     (let f = \<lfloor>x\<rfloor>; d = x - of_int f
      in if d < 1 / 2 then f else if 1 / 2 < d then f + 1 else if even f then f else f + 1)"

text \<open>
  Round to nearest, ties to even, for a positive \<open>x\<close>: the spacing of the doubles around
  \<open>x\<close> is \<open>2\<^sup>e\<close> with \<open>e = flog2 x - 52\<close>, and \<open>2\<^bsup>-1074\<^esup>\<close> in the subnormal range; \<open>x\<close> is rounded
  to a multiple of it. A result of \<open>2\<^bsup>1024\<^esup>\<close> or more is Infinity, and a positive \<open>x\<close> below
  half the least double is rounded to zero.
\<close>

definition round_pos :: "rat \<Rightarrow> jsnum" where
  "round_pos x =
     (let e = max (flog2 x - 52) (- 1074);
          r = of_int (round_even (x / pow2 e)) * pow2 e
      in if pow2 1024 \<le> r then PInf else Fin r)"

definition round_double :: "rat \<Rightarrow> jsnum" where
  "round_double x =
     (if x = 0 then Fin 0 else if 0 < x then round_pos x else js_neg (round_pos (- x)))"

subsection \<open>Arithmetic\<close>

fun js_add :: "jsnum \<Rightarrow> jsnum \<Rightarrow> jsnum" where
  "js_add NaN _ = NaN"
| "js_add _ NaN = NaN"
| "js_add (Fin a) (Fin b) = round_double (a + b)"
| "js_add PInf NInf = NaN"
| "js_add NInf PInf = NaN"
| "js_add PInf _ = PInf"
| "js_add _ PInf = PInf"
| "js_add NInf _ = NInf"
| "js_add _ NInf = NInf"

definition js_sub :: "jsnum \<Rightarrow> jsnum \<Rightarrow> jsnum" where
  "js_sub a b = js_add a (js_neg b)"

text \<open>The sign of a number that is not NaN: \<open>-1\<close>, \<open>0\<close> or \<open>1\<close>.\<close>

fun js_sign :: "jsnum \<Rightarrow> int" where
  "js_sign (Fin a) = (if a < 0 then - 1 else if a = 0 then 0 else 1)"
| "js_sign PInf = 1"
| "js_sign NInf = - 1"
| "js_sign NaN = 0"

fun js_mul :: "jsnum \<Rightarrow> jsnum \<Rightarrow> jsnum" where
  "js_mul NaN _ = NaN"
| "js_mul _ NaN = NaN"
| "js_mul (Fin a) (Fin b) = round_double (a * b)"
| "js_mul a b =
     (if js_sign a * js_sign b = 0 then NaN
      else if js_sign a * js_sign b = 1 then PInf else NInf)"

text \<open>\<^verbatim>\<open>Math.max(a, b)\<close>: NaN when either argument is NaN.\<close>

fun math_max :: "jsnum \<Rightarrow> jsnum \<Rightarrow> jsnum" where
  "math_max NaN _ = NaN"
| "math_max _ NaN = NaN"
| "math_max PInf _ = PInf"
| "math_max _ PInf = PInf"
| "math_max NInf b = b"
| "math_max a NInf = a"
| "math_max (Fin a) (Fin b) = Fin (max a b)"

subsection \<open>Values of a request\<close>

text \<open>
  A field of a request body. \<open>JUndef\<close> is what reading an absent property gives, and a
  number is the double that \<^verbatim>\<open>JSON.parse\<close> made of the literal. The requests of the model
  are those whose fields hold scalar JSON values (\<^verbatim>\<open>null\<close>, a boolean, a number, a string);
  the one array of objects the handlers read, the \<^verbatim>\<open>items\<close> of an invoice request, is a
  separate argument of that handler. A request with an array or an object in another
  field is outside the model.
\<close>

datatype jsval = JUndef | JNull | JBool bool | JNum jsnum | JStr string

type_synonym jsobj = "(string \<times> jsval) list"

text \<open>\<^verbatim>\<open>obj.key\<close> on a parsed JSON object, given as the list of its keys and values.\<close>

definition fld :: "jsobj \<Rightarrow> string \<Rightarrow> jsval" where
  "fld obj k = (case map_of obj k of None \<Rightarrow> JUndef | Some v \<Rightarrow> v)"

text \<open>Truthiness: \<^verbatim>\<open>undefined\<close>, \<^verbatim>\<open>null\<close>, \<^verbatim>\<open>false\<close>, \<^verbatim>\<open>0\<close>, \<^verbatim>\<open>NaN\<close> and \<^verbatim>\<open>''\<close> are falsy.\<close>

fun truthy :: "jsval \<Rightarrow> bool" where
  "truthy JUndef = False"
| "truthy JNull = False"
| "truthy (JBool b) = b"
| "truthy (JNum n) = (n \<noteq> Fin 0 \<and> n \<noteq> NaN)"
| "truthy (JStr s) = (s \<noteq> [])"

text \<open>\<^verbatim>\<open>v == null\<close>: true of \<^verbatim>\<open>null\<close> and \<^verbatim>\<open>undefined\<close> only.\<close>

fun nullish :: "jsval \<Rightarrow> bool" where
  "nullish JUndef = True"
| "nullish JNull = True"
| "nullish _ = False"

text \<open>\<^verbatim>\<open>a || b\<close> and \<^verbatim>\<open>a ?? b\<close>.\<close>

definition js_or :: "jsval \<Rightarrow> jsval \<Rightarrow> jsval" where
  "js_or a b = (if truthy a then a else b)"

text \<open>
  \<^verbatim>\<open>a || b\<close> for an \<open>a\<close> read from a \<^verbatim>\<open>TEXT\<close> column, where a number stands for the text
  SQLite made of it: that text is not empty, so it is truthy.
\<close>

definition stored_or :: "jsval \<Rightarrow> jsval \<Rightarrow> jsval" where
  "stored_or a b = (case a of JNum n \<Rightarrow> a | _ \<Rightarrow> js_or a b)"

definition js_coalesce :: "jsval \<Rightarrow> jsval \<Rightarrow> jsval" where
  "js_coalesce a b = (if nullish a then b else a)"

subsection \<open>Strings: \<^verbatim>\<open>trim\<close>, \<^verbatim>\<open>padStart\<close>, \<^verbatim>\<open>String(n)\<close>\<close>

text \<open>
  A string is the list of the bytes of its UTF-8 encoding, the encoding of a JSON request
  body: an ASCII character is one byte, and the texts the handlers build (identifiers,
  digits) are ASCII. The white space that \<^verbatim>\<open>trim\<close> and \<^verbatim>\<open>parseFloat\<close> strip is the white
  space and the line terminators of ECMAScript. In one byte: tab, line feed, vertical
  tab, form feed, carriage return, space. In two bytes: the no-break space U+00A0. In
  three bytes: U+1680, U+2000 to U+200A, U+2028, U+2029, U+202F, U+205F, U+3000 and
  U+FEFF.
\<close>

definition is_ws :: "char \<Rightarrow> bool" where
  "is_ws c = (c \<in> set [CHR 0x09, CHR 0x0A, CHR 0x0B, CHR 0x0C, CHR 0x0D, CHR '' ''])"

definition is_ws2 :: "char \<Rightarrow> char \<Rightarrow> bool" where
  "is_ws2 a b = (a = CHR 0xC2 \<and> b = CHR 0xA0)"

definition is_ws3 :: "char \<Rightarrow> char \<Rightarrow> char \<Rightarrow> bool" where
  "is_ws3 a b c =
     (a = CHR 0xE1 \<and> b = CHR 0x9A \<and> c = CHR 0x80
      \<or> a = CHR 0xE2 \<and> b = CHR 0x80
          \<and> c \<in> set [CHR 0x80, CHR 0x81, CHR 0x82, CHR 0x83, CHR 0x84, CHR 0x85, CHR 0x86,
                      CHR 0x87, CHR 0x88, CHR 0x89, CHR 0x8A, CHR 0xA8, CHR 0xA9, CHR 0xAF]
      \<or> a = CHR 0xE2 \<and> b = CHR 0x81 \<and> c = CHR 0x9F
      \<or> a = CHR 0xE3 \<and> b = CHR 0x80 \<and> c = CHR 0x80
      \<or> a = CHR 0xEF \<and> b = CHR 0xBB \<and> c = CHR 0xBF)"

text \<open>The text without the white space at its start.\<close>

fun trim_start :: "string \<Rightarrow> string" where
  "trim_start (a # b # c # r) =
     (if is_ws a then trim_start (b # c # r)
      else if is_ws2 a b then trim_start (c # r)
      else if is_ws3 a b c then trim_start r
      else a # b # c # r)"
| "trim_start [a, b] = (if is_ws a then trim_start [b] else if is_ws2 a b then [] else [a, b])"
| "trim_start [a] = (if is_ws a then [] else [a])"
| "trim_start [] = []"

text \<open>
  The same from the end, on the reversed text: the bytes of a character come last byte
  first.
\<close>

fun trim_reversed :: "string \<Rightarrow> string" where
  "trim_reversed (a # b # c # r) =
     (if is_ws a then trim_reversed (b # c # r)
      else if is_ws2 b a then trim_reversed (c # r)
      else if is_ws3 c b a then trim_reversed r
      else a # b # c # r)"
| "trim_reversed [a, b] = (if is_ws a then trim_reversed [b] else if is_ws2 b a then [] else [a, b])"
| "trim_reversed [a] = (if is_ws a then [] else [a])"
| "trim_reversed [] = []"

definition js_trim :: "string \<Rightarrow> string" where
  "js_trim s = rev (trim_reversed (rev (trim_start s)))"

text \<open>\<^verbatim>\<open>s.padStart(n, '0')\<close>.\<close>

definition padStart0 :: "nat \<Rightarrow> string \<Rightarrow> string" where
  "padStart0 n s = replicate (n - length s) (CHR ''0'') @ s"

definition digit_char :: "nat \<Rightarrow> char" where
  "digit_char d = ''0123456789'' ! d"

text \<open>\<^verbatim>\<open>String(n)\<close> for an integer \<open>n\<close>: its decimal digits, with a minus sign when negative.\<close>

fun show_nat :: "nat \<Rightarrow> string" where
  "show_nat n = (if n < 10 then [digit_char n] else show_nat (n div 10) @ [digit_char (n mod 10)])"

definition show_int :: "int \<Rightarrow> string" where
  "show_int i = (if i < 0 then CHR ''-'' # show_nat (nat (- i)) else show_nat (nat i))"

subsection \<open>\<^verbatim>\<open>parseFloat\<close>\<close>

text \<open>
  \<^verbatim>\<open>parseFloat(s)\<close> skips leading white space and reads the longest prefix that is a
  decimal literal: an optional sign, then \<^verbatim>\<open>Infinity\<close> or digits with an optional
  fraction and an optional exponent. With no such prefix the result is NaN. The result
  is the double nearest to the number the literal denotes, so a literal of large magnitude
  reads as Infinity and one of tiny magnitude as zero.
\<close>

definition is_digit :: "char \<Rightarrow> bool" where
  "is_digit c = (c \<in> set ''0123456789'')"

text \<open>The value of a decimal digit: its position among the ten digits.\<close>

definition digit_val :: "char \<Rightarrow> nat" where
  "digit_val c = length (takeWhile (\<lambda>d. d \<noteq> c) ''0123456789'')"

definition digits_val :: "string \<Rightarrow> nat" where
  "digits_val ds = foldl (\<lambda>acc c. 10 * acc + digit_val c) 0 ds"

text \<open>The exponent part after the mantissa: \<^verbatim>\<open>e\<close> or \<^verbatim>\<open>E\<close>, an optional sign, at least one digit.\<close>

definition parse_exponent :: "string \<Rightarrow> int" where
  "parse_exponent s =
     (case s of
        [] \<Rightarrow> 0
      | c # r \<Rightarrow>
          if c = CHR ''e'' \<or> c = CHR ''E'' then
            (case r of
               [] \<Rightarrow> 0
             | d # r' \<Rightarrow>
                 if d = CHR ''-'' then
                   (if takeWhile is_digit r' = [] then 0
                    else - int (digits_val (takeWhile is_digit r')))
                 else if d = CHR ''+'' then int (digits_val (takeWhile is_digit r'))
                 else int (digits_val (takeWhile is_digit r)))
          else 0)"

definition pow10 :: "int \<Rightarrow> rat" where
  "pow10 e = (if e < 0 then 1 / (10 ^ nat (- e)) else 10 ^ nat e)"

text \<open>
  An unsigned literal: \<open>None\<close> when the text does not start with one, else the exact value
  \<open>digits \<times> 10\<^sup>e\<close> of the literal, rounded.
\<close>

definition parse_unsigned :: "string \<Rightarrow> jsnum option" where
  "parse_unsigned s =
     (if take 8 s = ''Infinity'' then Some PInf
      else
        let ip = takeWhile is_digit s;
            r1 = dropWhile is_digit s;
            fp = (case r1 of [] \<Rightarrow> [] | c # r \<Rightarrow> if c = CHR ''.'' then takeWhile is_digit r else []);
            r2 = (case r1 of [] \<Rightarrow> [] | c # r \<Rightarrow> if c = CHR ''.'' then dropWhile is_digit r else r1)
        in if ip = [] \<and> fp = [] then None
           else Some (round_double
                        (of_nat (digits_val (ip @ fp)) * pow10 (parse_exponent r2 - int (length fp)))))"

definition parseFloat_str :: "string \<Rightarrow> jsnum" where
  "parseFloat_str s =
     (case trim_start s of
        [] \<Rightarrow> NaN
      | c # r \<Rightarrow>
          if c = CHR ''-'' then (case parse_unsigned r of None \<Rightarrow> NaN | Some n \<Rightarrow> js_neg n)
          else if c = CHR ''+'' then (case parse_unsigned r of None \<Rightarrow> NaN | Some n \<Rightarrow> n)
          else (case parse_unsigned (c # r) of None \<Rightarrow> NaN | Some n \<Rightarrow> n))"

text \<open>
  \<^verbatim>\<open>parseFloat(v)\<close> converts \<open>v\<close> to a string first: \<^verbatim>\<open>undefined\<close>, \<^verbatim>\<open>null\<close>, \<^verbatim>\<open>true\<close> and
  \<^verbatim>\<open>false\<close> give text with no numeric prefix, and a number prints to a literal that reads
  back as itself.
\<close>

fun parseFloat :: "jsval \<Rightarrow> jsnum" where
  "parseFloat (JStr s) = parseFloat_str s"
| "parseFloat (JNum n) = n"
| "parseFloat _ = NaN"

text \<open>\<^verbatim>\<open>parseFloat(v) || d\<close>: the default replaces NaN and also zero.\<close>

definition num_or :: "jsnum \<Rightarrow> jsnum \<Rightarrow> jsnum" where
  "num_or n d = (if n = NaN \<or> n = Fin 0 then d else n)"

section \<open>The store: tables and prepared statements of \<^verbatim>\<open>db.js\<close>\<close>

text \<open>
  What a statement or a handler can throw. \<open>TypeError\<close> is JavaScript's (calling
  \<^verbatim>\<open>trim\<close> on a number, reading a property of \<^verbatim>\<open>undefined\<close>) and the driver's when a
  value cannot be bound; \<open>RangeError\<close> is the driver's when the number of values passed
  to a statement differs from its number of placeholders; \<open>SqliteError\<close> is a violated
  constraint (primary key, \<^verbatim>\<open>NOT NULL\<close>, foreign key).
\<close>

datatype fault = TypeError | RangeError | SqliteError

text \<open>
  A row of each table of \<^verbatim>\<open>db.js\<close>. A \<^verbatim>\<open>REAL\<close> column holds a number or \<open>None\<close> for
  \<^verbatim>\<open>NULL\<close>. A \<^verbatim>\<open>TEXT\<close> column holds \<open>JNull\<close> for \<^verbatim>\<open>NULL\<close>, a string, or \<open>JNum n\<close>
  when the number \<open>n\<close> was bound to it: SQLite converts such a number to text (\<^verbatim>\<open>4\<close>
  becomes \<^verbatim>\<open>'4.0'\<close>), and \<open>JNum n\<close> in a \<^verbatim>\<open>TEXT\<close> column stands for that text, which is
  not computed here. The handlers compare a stored text with \<^verbatim>\<open>'Paid'\<close> and \<^verbatim>\<open>'Draft'\<close>,
  which no such text equals, test it for truth in the patient lookup of an invoice request
  (\<open>stored_or\<close>), and otherwise hand it back to a statement or to the response. The
  \<^verbatim>\<open>created_at\<close> time stamps and the row ids of line items are left out.

  \<open>p_patient_id\<close> is the column \<^verbatim>\<open>patient_id\<close> that the query
  \<^verbatim>\<open>patientQueries.getById\<close> casts to text: the \<^verbatim>\<open>CREATE TABLE\<close> of \<^verbatim>\<open>db.js\<close> does not
  declare it, the statement cannot be prepared without it, and no statement of \<^verbatim>\<open>db.js\<close>
  writes it, so it is \<^verbatim>\<open>NULL\<close> on every row the handlers insert.
\<close>

record patient =
  p_id :: string
  p_patient_id :: "string option"
  p_name :: jsval
  p_type :: jsval
  p_breed :: jsval
  p_colour :: jsval
  p_age :: jsval
  p_gender :: jsval
  p_weight :: "jsnum option"
  p_owner_name :: jsval
  p_phone :: jsval
  p_email :: jsval
  p_address :: jsval

record checkin =
  c_id :: string
  c_patient_id :: jsval
  c_patient_name :: jsval
  c_owner_name :: jsval
  c_doctor :: jsval
  c_date :: jsval
  c_complaint :: jsval
  c_subjective :: jsval
  c_objective :: jsval
  c_assessment :: jsval
  c_plan :: jsval
  c_procedures :: jsval
  c_medications :: jsval
  c_followup :: jsval
  c_status :: jsval

record invoice =
  i_ref :: string
  i_patient_id :: jsval
  i_patient_name :: jsval
  i_patient_type :: jsval
  i_owner_name :: jsval
  i_phone :: jsval
  i_date :: jsval
  i_subtotal :: "jsnum option"
  i_discount :: "jsnum option"
  i_total :: "jsnum option"
  i_paid_amount :: "jsnum option"
  i_balance :: "jsnum option"
  i_method :: jsval
  i_status :: jsval
  i_notes :: jsval

record invoice_item =
  li_invoice_ref :: string
  li_name :: jsval
  li_quantity :: "jsnum option"
  li_unit_price :: "jsnum option"
  li_discount :: "jsnum option"
  li_total :: "jsnum option"

text \<open>The tables, each in insertion order, and the \<^verbatim>\<open>counters\<close> table as a map from key to value.\<close>

record store =
  patients :: "patient list"
  checkins :: "checkin list"
  invoices :: "invoice list"
  invoice_items :: "invoice_item list"
  counters :: "string \<rightharpoonup> int"

subsection \<open>Binding values to a statement\<close>

text \<open>
  The driver binds numbers, strings and \<^verbatim>\<open>null\<close>/\<^verbatim>\<open>undefined\<close>; a boolean is a
  \<open>TypeError\<close>. SQLite stores a NaN as \<^verbatim>\<open>NULL\<close>. \<open>bound v\<close> is what a \<^verbatim>\<open>TEXT\<close> column
  holds after \<open>v\<close> was bound to it, a number standing for its text.
\<close>

fun bindable :: "jsval \<Rightarrow> bool" where
  "bindable (JBool _) = False"
| "bindable _ = True"

fun bound :: "jsval \<Rightarrow> jsval" where
  "bound JUndef = JNull"
| "bound (JNum n) = (if n = NaN then JNull else JNum n)"
| "bound v = v"

text \<open>A JavaScript number or \<^verbatim>\<open>null\<close> bound to a \<^verbatim>\<open>REAL\<close> column.\<close>

fun bind_real :: "jsnum option \<Rightarrow> jsnum option" where
  "bind_real None = None"
| "bind_real (Some n) = (if n = NaN then None else Some n)"

text \<open>\<^verbatim>\<open>null\<close> read from a column counts as \<open>0\<close> in arithmetic.\<close>

fun to_number :: "jsnum option \<Rightarrow> jsnum" where
  "to_number None = Fin 0"
| "to_number (Some n) = n"

subsection \<open>Counters\<close>

text \<open>
  \<^verbatim>\<open>initCounter.run('invoice', 1); initCounter.run('patient', 10000)\<close> with
  \<^verbatim>\<open>INSERT OR IGNORE\<close>: a key that is present keeps its value.
\<close>

definition initCounter :: "store \<Rightarrow> string \<Rightarrow> int \<Rightarrow> store" where
  "initCounter s key v =
     (case counters s key of
        None \<Rightarrow> s\<lparr>counters := (counters s)(key \<mapsto> v)\<rparr>
      | Some _ \<Rightarrow> s)"

text \<open>
  \<^verbatim>\<open>nextCounter(key)\<close>: reads the row, takes its value, adds one to the stored value and
  returns the value read. With no row for the key, \<^verbatim>\<open>row.value\<close> is a \<open>TypeError\<close>.
\<close>

definition nextCounter :: "store \<Rightarrow> string \<Rightarrow> fault + (int \<times> store)" where
  "nextCounter s key =
     (case counters s key of
        None \<Rightarrow> Inl TypeError
      | Some val \<Rightarrow> Inr (val, s\<lparr>counters := (counters s)(key \<mapsto> val + 1)\<rparr>))"

subsection \<open>\<^verbatim>\<open>patientQueries\<close>\<close>

text \<open>
  \<^verbatim>\<open>getById: SELECT * FROM patients WHERE id = ? OR CAST(patient_id AS TEXT) = ?\<close>.
  The statement has two placeholders, and the list holds the values the caller passes to
  \<^verbatim>\<open>get\<close>. The driver (better-sqlite3) binds them one by one, a value it cannot bind
  being a \<open>TypeError\<close>, and then requires that every placeholder has its value: with
  fewer or more values than placeholders it throws a \<open>RangeError\<close> (too few, or too
  many, parameter values were provided) and runs nothing. The row returned is the first
  in table order that matches.
\<close>

definition patient_matches :: "jsval \<Rightarrow> jsval \<Rightarrow> patient \<Rightarrow> bool" where
  "patient_matches a b p =
     (JStr (p_id p) = a \<or> (case p_patient_id p of None \<Rightarrow> False | Some t \<Rightarrow> JStr t = b))"

definition patient_getById :: "store \<Rightarrow> jsval list \<Rightarrow> fault + patient option" where
  "patient_getById s args =
     (if \<not> list_all bindable args then Inl TypeError
      else case args of
             [a, b] \<Rightarrow> Inr (find (patient_matches a b) (patients s))
           | _ \<Rightarrow> Inl RangeError)"

text \<open>
  \<^verbatim>\<open>insert\<close>: every value must be bindable; \<^verbatim>\<open>id\<close> is the primary key and \<^verbatim>\<open>name\<close>,
  \<^verbatim>\<open>owner_name\<close> are \<^verbatim>\<open>NOT NULL\<close>.
\<close>

definition patient_texts :: "patient \<Rightarrow> jsval list" where
  "patient_texts p =
     [p_name p, p_type p, p_breed p, p_colour p, p_age p, p_gender p, p_owner_name p,
      p_phone p, p_email p, p_address p]"

definition patient_bound :: "patient \<Rightarrow> patient" where
  "patient_bound p =
     p\<lparr>p_name := bound (p_name p), p_type := bound (p_type p), p_breed := bound (p_breed p),
       p_colour := bound (p_colour p), p_age := bound (p_age p), p_gender := bound (p_gender p),
       p_weight := bind_real (p_weight p), p_owner_name := bound (p_owner_name p),
       p_phone := bound (p_phone p), p_email := bound (p_email p),
       p_address := bound (p_address p)\<rparr>"

definition patient_insert :: "store \<Rightarrow> patient \<Rightarrow> fault + store" where
  "patient_insert s p =
     (if \<not> list_all bindable (patient_texts p) then Inl TypeError
      else if p_id p \<in> set (map p_id (patients s)) then Inl SqliteError
      else if bound (p_name p) = JNull \<or> bound (p_owner_name p) = JNull then Inl SqliteError
      else Inr (s\<lparr>patients := patients s @ [(patient_bound p)\<lparr>p_patient_id := None\<rparr>]\<rparr>))"

text \<open>
  \<^verbatim>\<open>update: UPDATE patients SET name=@name, ... WHERE id=@id\<close>. The parameter object
  carries the new column values and the id of the rows to change.
\<close>

definition patient_set :: "patient \<Rightarrow> patient \<Rightarrow> patient" where
  "patient_set v r =
     r\<lparr>p_name := bound (p_name v), p_type := bound (p_type v), p_breed := bound (p_breed v),
       p_colour := bound (p_colour v), p_age := bound (p_age v), p_gender := bound (p_gender v),
       p_weight := bind_real (p_weight v), p_owner_name := bound (p_owner_name v),
       p_phone := bound (p_phone v), p_email := bound (p_email v),
       p_address := bound (p_address v)\<rparr>"

definition patient_update :: "store \<Rightarrow> patient \<Rightarrow> fault + store" where
  "patient_update s v =
     (if \<not> list_all bindable (patient_texts v) then Inl TypeError
      else if (bound (p_name v) = JNull \<or> bound (p_owner_name v) = JNull)
              \<and> p_id v \<in> set (map p_id (patients s)) then Inl SqliteError
      else Inr (s\<lparr>patients := map (\<lambda>r. if p_id r = p_id v then patient_set v r else r) (patients s)\<rparr>))"

text \<open>
  \<^verbatim>\<open>delete: DELETE FROM patients WHERE id = ?\<close>, with foreign keys enforced: check-ins
  that reference the patient are deleted with it (\<^verbatim>\<open>ON DELETE CASCADE\<close>), invoices that
  reference it get a \<^verbatim>\<open>NULL\<close> reference (\<^verbatim>\<open>ON DELETE SET NULL\<close>).
\<close>

definition patient_delete :: "store \<Rightarrow> string \<Rightarrow> store" where
  "patient_delete s pid =
     (if pid \<in> set (map p_id (patients s)) then
        s\<lparr>patients := filter (\<lambda>p. p_id p \<noteq> pid) (patients s),
          checkins := filter (\<lambda>c. c_patient_id c \<noteq> JStr pid) (checkins s),
          invoices := map (\<lambda>i. if i_patient_id i = JStr pid then i\<lparr>i_patient_id := JNull\<rparr> else i)
                          (invoices s)\<rparr>
      else s)"

subsection \<open>\<^verbatim>\<open>checkinQueries\<close>\<close>

definition checkin_getById :: "store \<Rightarrow> string \<Rightarrow> checkin option" where
  "checkin_getById s cid = find (\<lambda>c. c_id c = cid) (checkins s)"

definition checkin_texts :: "checkin \<Rightarrow> jsval list" where
  "checkin_texts c =
     [c_patient_id c, c_patient_name c, c_owner_name c, c_doctor c, c_date c, c_complaint c,
      c_subjective c, c_objective c, c_assessment c, c_plan c, c_procedures c,
      c_medications c, c_followup c, c_status c]"

definition checkin_bound :: "checkin \<Rightarrow> checkin" where
  "checkin_bound c =
     c\<lparr>c_patient_id := bound (c_patient_id c), c_patient_name := bound (c_patient_name c),
       c_owner_name := bound (c_owner_name c), c_doctor := bound (c_doctor c),
       c_date := bound (c_date c), c_complaint := bound (c_complaint c),
       c_subjective := bound (c_subjective c), c_objective := bound (c_objective c),
       c_assessment := bound (c_assessment c), c_plan := bound (c_plan c),
       c_procedures := bound (c_procedures c), c_medications := bound (c_medications c),
       c_followup := bound (c_followup c), c_status := bound (c_status c)\<rparr>"

text \<open>The foreign key \<^verbatim>\<open>REFERENCES patients(id)\<close>: \<^verbatim>\<open>NULL\<close> or the id of a stored patient.\<close>

definition patient_ref_ok :: "store \<Rightarrow> jsval \<Rightarrow> bool" where
  "patient_ref_ok s v = (v = JNull \<or> v \<in> set (map (\<lambda>p. JStr (p_id p)) (patients s)))"

text \<open>\<^verbatim>\<open>insert\<close>: \<^verbatim>\<open>id\<close> is the primary key, \<^verbatim>\<open>doctor\<close> and \<^verbatim>\<open>date\<close> are \<^verbatim>\<open>NOT NULL\<close>.\<close>

definition checkin_insert :: "store \<Rightarrow> checkin \<Rightarrow> fault + store" where
  "checkin_insert s c =
     (if \<not> list_all bindable (checkin_texts c) then Inl TypeError
      else if c_id c \<in> set (map c_id (checkins s)) then Inl SqliteError
      else if bound (c_doctor c) = JNull \<or> bound (c_date c) = JNull then Inl SqliteError
      else if \<not> patient_ref_ok s (bound (c_patient_id c)) then Inl SqliteError
      else Inr (s\<lparr>checkins := checkins s @ [checkin_bound c]\<rparr>))"

text \<open>\<^verbatim>\<open>updateStatus: UPDATE checkins SET status = ? WHERE id = ?\<close>.\<close>

definition checkin_updateStatus :: "store \<Rightarrow> jsval \<Rightarrow> string \<Rightarrow> fault + store" where
  "checkin_updateStatus s status cid =
     (if \<not> bindable status then Inl TypeError
      else Inr (s\<lparr>checkins :=
                   map (\<lambda>c. if c_id c = cid then c\<lparr>c_status := bound status\<rparr> else c) (checkins s)\<rparr>))"

text \<open>\<^verbatim>\<open>delete: DELETE FROM checkins WHERE id = ?\<close>.\<close>

definition checkin_delete :: "store \<Rightarrow> string \<Rightarrow> store" where
  "checkin_delete s cid = s\<lparr>checkins := filter (\<lambda>c. c_id c \<noteq> cid) (checkins s)\<rparr>"

subsection \<open>\<^verbatim>\<open>invoiceQueries\<close> and \<^verbatim>\<open>createInvoice\<close>\<close>

definition invoice_getById :: "store \<Rightarrow> string \<Rightarrow> invoice option" where
  "invoice_getById s ref = find (\<lambda>i. i_ref i = ref) (invoices s)"

text \<open>\<^verbatim>\<open>getItems: SELECT * FROM invoice_items WHERE invoice_ref = ? ORDER BY id\<close>.\<close>

definition invoice_getItems :: "store \<Rightarrow> string \<Rightarrow> invoice_item list" where
  "invoice_getItems s ref = filter (\<lambda>it. li_invoice_ref it = ref) (invoice_items s)"

definition invoice_texts :: "invoice \<Rightarrow> jsval list" where
  "invoice_texts i =
     [i_patient_id i, i_patient_name i, i_patient_type i, i_owner_name i, i_phone i, i_date i,
      i_method i, i_status i, i_notes i]"

definition invoice_bound :: "invoice \<Rightarrow> invoice" where
  "invoice_bound i =
     i\<lparr>i_patient_id := bound (i_patient_id i), i_patient_name := bound (i_patient_name i),
       i_patient_type := bound (i_patient_type i), i_owner_name := bound (i_owner_name i),
       i_phone := bound (i_phone i), i_date := bound (i_date i),
       i_subtotal := bind_real (i_subtotal i), i_discount := bind_real (i_discount i),
       i_total := bind_real (i_total i), i_paid_amount := bind_real (i_paid_amount i),
       i_balance := bind_real (i_balance i), i_method := bound (i_method i),
       i_status := bound (i_status i), i_notes := bound (i_notes i)\<rparr>"

text \<open>
  \<^verbatim>\<open>insert\<close>: \<^verbatim>\<open>ref\<close> is the primary key; \<^verbatim>\<open>patient_name\<close>, \<^verbatim>\<open>owner_name\<close> and \<^verbatim>\<open>date\<close>
  are \<^verbatim>\<open>NOT NULL\<close>; \<^verbatim>\<open>patient_id\<close> references \<^verbatim>\<open>patients(id)\<close>.
\<close>

definition invoice_insert :: "store \<Rightarrow> invoice \<Rightarrow> fault + store" where
  "invoice_insert s i =
     (if \<not> list_all bindable (invoice_texts i) then Inl TypeError
      else if i_ref i \<in> set (map i_ref (invoices s)) then Inl SqliteError
      else if bound (i_patient_name i) = JNull \<or> bound (i_owner_name i) = JNull
              \<or> bound (i_date i) = JNull then Inl SqliteError
      else if \<not> patient_ref_ok s (bound (i_patient_id i)) then Inl SqliteError
      else Inr (s\<lparr>invoices := invoices s @ [invoice_bound i]\<rparr>))"

text \<open>
  A line item as the handler computes it, and \<^verbatim>\<open>insertItem\<close> run on
  \<^verbatim>\<open>{ ...item, invoice_ref: inv.ref }\<close>: \<^verbatim>\<open>name\<close> is \<^verbatim>\<open>NOT NULL\<close> and \<^verbatim>\<open>invoice_ref\<close>
  references \<^verbatim>\<open>invoices(ref)\<close>.
\<close>

record line_item =
  l_name :: jsval
  l_quantity :: jsnum
  l_unit_price :: jsnum
  l_discount :: jsnum
  l_total :: jsnum

definition item_row :: "string \<Rightarrow> line_item \<Rightarrow> invoice_item" where
  "item_row ref l =
     \<lparr>li_invoice_ref = ref, li_name = bound (l_name l),
      li_quantity = bind_real (Some (l_quantity l)),
      li_unit_price = bind_real (Some (l_unit_price l)),
      li_discount = bind_real (Some (l_discount l)),
      li_total = bind_real (Some (l_total l))\<rparr>"

definition invoice_insertItem :: "store \<Rightarrow> string \<Rightarrow> line_item \<Rightarrow> fault + store" where
  "invoice_insertItem s ref l =
     (if \<not> bindable (l_name l) then Inl TypeError
      else if bound (l_name l) = JNull then Inl SqliteError
      else if ref \<notin> set (map i_ref (invoices s)) then Inl SqliteError
      else Inr (s\<lparr>invoice_items := invoice_items s @ [item_row ref l]\<rparr>))"

text \<open>
  \<^verbatim>\<open>updateStatus: UPDATE invoices SET status=@status, paid_amount=@paid_amount,
  balance=@balance WHERE ref=@ref\<close>.
\<close>

definition invoice_updateStatus ::
  "store \<Rightarrow> jsval \<Rightarrow> jsnum option \<Rightarrow> jsnum option \<Rightarrow> string \<Rightarrow> fault + store" where
  "invoice_updateStatus s status paid_amount balance ref =
     (if \<not> bindable status then Inl TypeError
      else Inr (s\<lparr>invoices :=
                   map (\<lambda>i. if i_ref i = ref
                            then i\<lparr>i_status := bound status, i_paid_amount := bind_real paid_amount,
                                   i_balance := bind_real balance\<rparr>
                            else i) (invoices s)\<rparr>))"

text \<open>
  \<^verbatim>\<open>delete: DELETE FROM invoices WHERE ref = ?\<close>; the line items of the invoice go with
  it (\<^verbatim>\<open>ON DELETE CASCADE\<close>).
\<close>

definition invoice_delete :: "store \<Rightarrow> string \<Rightarrow> store" where
  "invoice_delete s ref =
     (if ref \<in> set (map i_ref (invoices s)) then
        s\<lparr>invoices := filter (\<lambda>i. i_ref i \<noteq> ref) (invoices s),
          invoice_items := filter (\<lambda>it. li_invoice_ref it \<noteq> ref) (invoice_items s)\<rparr>
      else s)"

text \<open>
  \<^verbatim>\<open>createInvoice\<close> is a transaction: the invoice, then each item in order, then the
  stored invoice is read back. A fault in any step rolls everything back, so the caller
  keeps the store it had.
\<close>

fun insertItems :: "store \<Rightarrow> string \<Rightarrow> line_item list \<Rightarrow> fault + store" where
  "insertItems s ref [] = Inr s"
| "insertItems s ref (l # ls) =
     (case invoice_insertItem s ref l of
        Inl f \<Rightarrow> Inl f
      | Inr s' \<Rightarrow> insertItems s' ref ls)"

definition createInvoice :: "store \<Rightarrow> invoice \<Rightarrow> line_item list \<Rightarrow> fault + (store \<times> invoice option)" where
  "createInvoice s iv ls =
     (case invoice_insert s iv of
        Inl f \<Rightarrow> Inl f
      | Inr s1 \<Rightarrow>
          (case insertItems s1 (i_ref iv) ls of
             Inl f \<Rightarrow> Inl f
           | Inr s2 \<Rightarrow> Inr (s2, invoice_getById s2 (i_ref iv))))"

section \<open>The request handlers of \<^verbatim>\<open>server.js\<close>\<close>

text \<open>
  A handler takes the store and the request and returns the store it leaves and the
  response. \<^verbatim>\<open>ok(res, data)\<close> answers HTTP 200 with \<^verbatim>\<open>{success: true, data}\<close>;
  \<^verbatim>\<open>err(res, msg, status)\<close> answers the status (400 by default) with
  \<^verbatim>\<open>{success: false, error: msg}\<close>. Every handler body is inside \<^verbatim>\<open>try\<close>, and its
  \<^verbatim>\<open>catch\<close> answers 500 with the message of what was thrown; what the statements wrote
  before the throw stays written. The list, search and statistics routes are not modelled.
\<close>

datatype payload =
    Patient_row patient
  | Checkin_row checkin
  | Invoice_with_items invoice "invoice_item list"
  | Deleted string
  | Undefined

datatype errmsg = Msg string | Thrown fault

datatype response = Success payload | Failure nat errmsg

definition thrown :: "fault \<Rightarrow> response" where
  "thrown f = Failure 500 (Thrown f)"

text \<open>
  \<^verbatim>\<open>v?.trim()\<close>: \<^verbatim>\<open>undefined\<close> (here \<open>None\<close>) for a nullish \<open>v\<close>, a \<open>TypeError\<close> for a
  number or a boolean. \<^verbatim>\<open>!v?.trim()\<close> holds of \<open>None\<close> and of the empty string.
\<close>

fun opt_trim :: "jsval \<Rightarrow> fault + string option" where
  "opt_trim JUndef = Inr None"
| "opt_trim JNull = Inr None"
| "opt_trim (JStr s) = Inr (Some (js_trim s))"
| "opt_trim _ = Inl TypeError"

fun row_or_undefined :: "('a \<Rightarrow> payload) \<Rightarrow> 'a option \<Rightarrow> payload" where
  "row_or_undefined mk None = Undefined"
| "row_or_undefined mk (Some r) = mk r"

subsection \<open>Identifiers\<close>

text \<open>\<^verbatim>\<open>generatePatientId\<close>: \<^verbatim>\<open>'PaCPC-' + String(n).padStart(5, '0')\<close> for the next counter value.\<close>

definition patient_id_of :: "int \<Rightarrow> string" where
  "patient_id_of n = ''PaCPC-'' @ padStart0 5 (show_int n)"

definition generatePatientId :: "store \<Rightarrow> fault + (string \<times> store)" where
  "generatePatientId s =
     (case nextCounter s ''patient'' of
        Inl f \<Rightarrow> Inl f
      | Inr (n, s') \<Rightarrow> Inr (patient_id_of n, s'))"

text \<open>
  \<^verbatim>\<open>generateInvoiceRef\<close>; \<open>year\<close> is \<^verbatim>\<open>now.getFullYear()\<close> and \<open>month\<close> is
  \<^verbatim>\<open>now.getMonth()\<close>, which counts from 0.
\<close>

definition invoice_ref_of :: "int \<Rightarrow> nat \<Rightarrow> int \<Rightarrow> string" where
  "invoice_ref_of year month n =
     ''IN:01-'' @ drop 2 (show_int year) @ padStart0 2 (show_nat (month + 1)) @ ''-''
       @ padStart0 4 (show_int n)"

definition generateInvoiceRef :: "store \<Rightarrow> int \<Rightarrow> nat \<Rightarrow> fault + (string \<times> store)" where
  "generateInvoiceRef s year month =
     (case nextCounter s ''invoice'' of
        Inl f \<Rightarrow> Inl f
      | Inr (n, s') \<Rightarrow> Inr (invoice_ref_of year month n, s'))"

subsection \<open>Patients\<close>

text \<open>\<^verbatim>\<open>GET /api/patients/:id\<close>.\<close>

definition get_patient :: "store \<Rightarrow> string \<Rightarrow> store \<times> response" where
  "get_patient s pid =
     (case patient_getById s [JStr pid, JStr pid] of
        Inl f \<Rightarrow> (s, thrown f)
      | Inr None \<Rightarrow> (s, Failure 404 (Msg ''Patient not found''))
      | Inr (Some p) \<Rightarrow> (s, Success (Patient_row p)))"

text \<open>
  \<^verbatim>\<open>POST /api/patients\<close>. The object passed to \<^verbatim>\<open>insert\<close> is built after both checks;
  its first property calls \<^verbatim>\<open>generatePatientId\<close>. The row is read back with
  \<^verbatim>\<open>patientQueries.getById.get(patient.id)\<close>, one value.
\<close>

definition new_patient :: "string \<Rightarrow> string \<Rightarrow> string \<Rightarrow> jsobj \<Rightarrow> patient" where
  "new_patient pid name owner_name body =
     \<lparr>p_id = pid, p_patient_id = None,
      p_name = JStr name,
      p_type = js_or (fld body ''type'') JNull,
      p_breed = js_or (fld body ''breed'') JNull,
      p_colour = js_or (fld body ''colour'') JNull,
      p_age = js_or (fld body ''age'') JNull,
      p_gender = js_or (fld body ''gender'') JNull,
      p_weight = (if truthy (fld body ''weight'') then Some (parseFloat (fld body ''weight'')) else None),
      p_owner_name = JStr owner_name,
      p_phone = js_or (fld body ''phone'') JNull,
      p_email = js_or (fld body ''email'') JNull,
      p_address = js_or (fld body ''address'') JNull\<rparr>"

definition post_patient :: "store \<Rightarrow> jsobj \<Rightarrow> store \<times> response" where
  "post_patient s body =
     (case opt_trim (fld body ''name'') of
        Inl f \<Rightarrow> (s, thrown f)
      | Inr None \<Rightarrow> (s, Failure 400 (Msg ''Pet name is required''))
      | Inr (Some name) \<Rightarrow>
          if name = [] then (s, Failure 400 (Msg ''Pet name is required''))
          else
            (case opt_trim (fld body ''owner_name'') of
               Inl f \<Rightarrow> (s, thrown f)
             | Inr None \<Rightarrow> (s, Failure 400 (Msg ''Owner name is required''))
             | Inr (Some owner_name) \<Rightarrow>
                 if owner_name = [] then (s, Failure 400 (Msg ''Owner name is required''))
                 else
                   (case generatePatientId s of
                      Inl f \<Rightarrow> (s, thrown f)
                    | Inr (pid, s1) \<Rightarrow>
                        (case patient_insert s1 (new_patient pid name owner_name body) of
                           Inl f \<Rightarrow> (s1, thrown f)
                         | Inr s2 \<Rightarrow>
                             (case patient_getById s2 [JStr pid] of
                                Inl f \<Rightarrow> (s2, thrown f)
                              | Inr r \<Rightarrow> (s2, Success (row_or_undefined Patient_row r)))))))"

text \<open>
  \<^verbatim>\<open>PUT /api/patients/:id\<close>. The existing row is read with two values; the row read
  back for the response with one.
\<close>

definition updated_patient :: "string \<Rightarrow> patient \<Rightarrow> jsobj \<Rightarrow> patient" where
  "updated_patient pid existing body =
     \<lparr>p_id = pid, p_patient_id = None,
      p_name = js_or (fld body ''name'') (p_name existing),
      p_type = js_coalesce (fld body ''type'') (p_type existing),
      p_breed = js_coalesce (fld body ''breed'') (p_breed existing),
      p_colour = js_coalesce (fld body ''colour'') (p_colour existing),
      p_age = js_coalesce (fld body ''age'') (p_age existing),
      p_gender = js_coalesce (fld body ''gender'') (p_gender existing),
      p_weight = (if \<not> nullish (fld body ''weight'') then Some (parseFloat (fld body ''weight''))
                  else p_weight existing),
      p_owner_name = js_or (fld body ''owner_name'') (p_owner_name existing),
      p_phone = js_coalesce (fld body ''phone'') (p_phone existing),
      p_email = js_coalesce (fld body ''email'') (p_email existing),
      p_address = js_coalesce (fld body ''address'') (p_address existing)\<rparr>"

definition put_patient :: "store \<Rightarrow> string \<Rightarrow> jsobj \<Rightarrow> store \<times> response" where
  "put_patient s pid body =
     (case patient_getById s [JStr pid, JStr pid] of
        Inl f \<Rightarrow> (s, thrown f)
      | Inr None \<Rightarrow> (s, Failure 404 (Msg ''Patient not found''))
      | Inr (Some existing) \<Rightarrow>
          (case patient_update s (updated_patient pid existing body) of
             Inl f \<Rightarrow> (s, thrown f)
           | Inr s1 \<Rightarrow>
               (case patient_getById s1 [JStr pid] of
                  Inl f \<Rightarrow> (s1, thrown f)
                | Inr r \<Rightarrow> (s1, Success (row_or_undefined Patient_row r)))))"

text \<open>\<^verbatim>\<open>DELETE /api/patients/:id\<close>. The row is looked up with one value.\<close>

definition delete_patient :: "store \<Rightarrow> string \<Rightarrow> store \<times> response" where
  "delete_patient s pid =
     (case patient_getById s [JStr pid] of
        Inl f \<Rightarrow> (s, thrown f)
      | Inr None \<Rightarrow> (s, Failure 404 (Msg ''Patient not found''))
      | Inr (Some p) \<Rightarrow> (patient_delete s pid, Success (Deleted pid)))"

subsection \<open>Check-ins\<close>

text \<open>\<^verbatim>\<open>GET /api/checkins/:id\<close>.\<close>

definition get_checkin :: "store \<Rightarrow> string \<Rightarrow> store \<times> response" where
  "get_checkin s cid =
     (case checkin_getById s cid of
        None \<Rightarrow> (s, Failure 404 (Msg ''Check-in not found''))
      | Some c \<Rightarrow> (s, Success (Checkin_row c)))"

text \<open>
  The patient snapshot of \<^verbatim>\<open>POST /api/checkins\<close>: the names of the request, replaced by
  those of the patient when \<^verbatim>\<open>patient_id\<close> is truthy and
  \<^verbatim>\<open>patientQueries.getById.get(patient_id)\<close> (one value) finds a row.
\<close>

definition checkin_names :: "store \<Rightarrow> jsobj \<Rightarrow> fault + (jsval \<times> jsval)" where
  "checkin_names s body =
     (let patient_name = js_or (fld body ''patient_name'') (JStr []);
          owner_name = js_or (fld body ''owner_name'') (JStr [])
      in if truthy (fld body ''patient_id'') then
           (case patient_getById s [fld body ''patient_id''] of
              Inl f \<Rightarrow> Inl f
            | Inr None \<Rightarrow> Inr (patient_name, owner_name)
            | Inr (Some pat) \<Rightarrow> Inr (p_name pat, p_owner_name pat))
         else Inr (patient_name, owner_name))"

text \<open>
  \<^verbatim>\<open>POST /api/checkins\<close>; \<open>now\<close> is \<^verbatim>\<open>Date.now()\<close> and \<open>rnd\<close> the characters, four
  at most, taken from \<^verbatim>\<open>Math.random().toString(36)\<close>.
\<close>

definition new_checkin :: "string \<Rightarrow> string \<Rightarrow> jsval \<Rightarrow> jsval \<Rightarrow> jsobj \<Rightarrow> checkin" where
  "new_checkin cid doctor patient_name owner_name body =
     \<lparr>c_id = cid,
      c_patient_id = js_or (fld body ''patient_id'') JNull,
      c_patient_name = patient_name, c_owner_name = owner_name,
      c_doctor = JStr doctor,
      c_date = fld body ''date'',
      c_complaint = js_or (fld body ''complaint'') JNull,
      c_subjective = js_or (fld body ''subjective'') JNull,
      c_objective = js_or (fld body ''objective'') JNull,
      c_assessment = js_or (fld body ''assessment'') JNull,
      c_plan = js_or (fld body ''plan'') JNull,
      c_procedures = js_or (fld body ''procedures'') JNull,
      c_medications = js_or (fld body ''medications'') JNull,
      c_followup = js_or (fld body ''followup'') JNull,
      c_status = JStr ''open''\<rparr>"

definition post_checkin :: "store \<Rightarrow> nat \<Rightarrow> string \<Rightarrow> jsobj \<Rightarrow> store \<times> response" where
  "post_checkin s now rnd body =
     (case opt_trim (fld body ''doctor'') of
        Inl f \<Rightarrow> (s, thrown f)
      | Inr None \<Rightarrow> (s, Failure 400 (Msg ''Doctor name is required''))
      | Inr (Some doctor) \<Rightarrow>
          if doctor = [] then (s, Failure 400 (Msg ''Doctor name is required''))
          else if \<not> truthy (fld body ''date'') then (s, Failure 400 (Msg ''Date is required''))
          else
            (case checkin_names s body of
               Inl f \<Rightarrow> (s, thrown f)
             | Inr (patient_name, owner_name) \<Rightarrow>
                 (let cid = ''CI-'' @ show_nat now @ ''-'' @ rnd
                  in case checkin_insert s (new_checkin cid doctor patient_name owner_name body) of
                       Inl f \<Rightarrow> (s, thrown f)
                     | Inr s1 \<Rightarrow>
                         (s1, Success (row_or_undefined Checkin_row (checkin_getById s1 cid))))))"

text \<open>\<^verbatim>\<open>PATCH /api/checkins/:id/status\<close>.\<close>

definition patch_checkin_status :: "store \<Rightarrow> string \<Rightarrow> jsobj \<Rightarrow> store \<times> response" where
  "patch_checkin_status s cid body =
     (let status = fld body ''status''
      in if status \<notin> set [JStr ''open'', JStr ''done''] then (s, Failure 400 (Msg ''Invalid status''))
         else
           (case checkin_updateStatus s status cid of
              Inl f \<Rightarrow> (s, thrown f)
            | Inr s1 \<Rightarrow> (s1, Success (row_or_undefined Checkin_row (checkin_getById s1 cid)))))"

text \<open>\<^verbatim>\<open>DELETE /api/checkins/:id\<close>.\<close>

definition delete_checkin :: "store \<Rightarrow> string \<Rightarrow> store \<times> response" where
  "delete_checkin s cid = (checkin_delete s cid, Success (Deleted cid))"

subsection \<open>Invoices\<close>

text \<open>\<^verbatim>\<open>GET /api/invoices/:ref\<close>.\<close>

definition get_invoice :: "store \<Rightarrow> string \<Rightarrow> store \<times> response" where
  "get_invoice s ref =
     (case invoice_getById s ref of
        None \<Rightarrow> (s, Failure 404 (Msg ''Invoice not found''))
      | Some iv \<Rightarrow> (s, Success (Invoice_with_items iv (invoice_getItems s (i_ref iv)))))"

text \<open>
  The totals of \<^verbatim>\<open>POST /api/invoices\<close>. Each item of the request becomes
  \<^verbatim>\<open>{name, quantity: parseFloat(item.quantity) || 1, unit_price: parseFloat(item.unit_price) || 0,
  discount: parseFloat(item.discount) || 0, total: quantity * unit_price - discount}\<close>.
\<close>

definition lineItem :: "jsobj \<Rightarrow> line_item" where
  "lineItem item =
     \<lparr>l_name = fld item ''name'',
      l_quantity = num_or (parseFloat (fld item ''quantity'')) (Fin 1),
      l_unit_price = num_or (parseFloat (fld item ''unit_price'')) (Fin 0),
      l_discount = num_or (parseFloat (fld item ''discount'')) (Fin 0),
      l_total = js_sub (js_mul (num_or (parseFloat (fld item ''quantity'')) (Fin 1))
                               (num_or (parseFloat (fld item ''unit_price'')) (Fin 0)))
                       (num_or (parseFloat (fld item ''discount'')) (Fin 0))\<rparr>"

text \<open>\<^verbatim>\<open>lineItems.reduce((s, i) => s + (i.quantity * i.unit_price), 0)\<close>.\<close>

definition subtotal_of :: "line_item list \<Rightarrow> jsnum" where
  "subtotal_of ls = foldl (\<lambda>s i. js_add s (js_mul (l_quantity i) (l_unit_price i))) (Fin 0) ls"

text \<open>\<^verbatim>\<open>lineItems.reduce((s, i) => s + i.discount, 0)\<close>.\<close>

definition discount_of :: "line_item list \<Rightarrow> jsnum" where
  "discount_of ls = foldl (\<lambda>s i. js_add s (l_discount i)) (Fin 0) ls"

text \<open>
  The patient snapshot of \<^verbatim>\<open>POST /api/invoices\<close>: name, type and phone of the request,
  replaced by those of the patient when \<^verbatim>\<open>patient_id\<close> is truthy and
  \<^verbatim>\<open>patientQueries.getById.get(patient_id)\<close> (one value) finds a row.
\<close>

definition invoice_names :: "store \<Rightarrow> jsobj \<Rightarrow> fault + (jsval \<times> jsval \<times> jsval)" where
  "invoice_names s body =
     (let patient_name = js_or (fld body ''patient_name'') (JStr []);
          patient_type = js_or (fld body ''patient_type'') (JStr []);
          phone = js_or (fld body ''phone'') (JStr [])
      in if truthy (fld body ''patient_id'') then
           (case patient_getById s [fld body ''patient_id''] of
              Inl f \<Rightarrow> Inl f
            | Inr None \<Rightarrow> Inr (patient_name, patient_type, phone)
            | Inr (Some pat) \<Rightarrow>
                Inr (p_name pat, stored_or (p_type pat) (JStr []), stored_or (p_phone pat) (JStr [])))
         else Inr (patient_name, patient_type, phone))"

text \<open>The object \<^verbatim>\<open>inv\<close> handed to \<^verbatim>\<open>createInvoice\<close>.\<close>

definition new_invoice ::
  "string \<Rightarrow> string \<Rightarrow> jsval \<times> jsval \<times> jsval \<Rightarrow> line_item list \<Rightarrow> jsobj \<Rightarrow> invoice" where
  "new_invoice ref owner_name names ls body =
     (let subtotal = subtotal_of ls;
          discount = discount_of ls;
          total = js_sub subtotal discount;
          paid_amount = num_or (parseFloat (fld body ''paid_amount'')) (Fin 0);
          balance = math_max (Fin 0) (js_sub total paid_amount)
      in \<lparr>i_ref = ref,
          i_patient_id = js_or (fld body ''patient_id'') JNull,
          i_patient_name = fst names, i_patient_type = fst (snd names),
          i_owner_name = JStr owner_name, i_phone = snd (snd names),
          i_date = fld body ''date'',
          i_subtotal = Some subtotal, i_discount = Some discount, i_total = Some total,
          i_paid_amount = Some paid_amount, i_balance = Some balance,
          i_method = js_or (fld body ''method'') JNull,
          i_status = js_or (fld body ''status'') (JStr ''Draft''),
          i_notes = js_or (fld body ''notes'') JNull\<rparr>)"

text \<open>
  \<^verbatim>\<open>POST /api/invoices\<close>. \<open>items\<close> is the array at \<^verbatim>\<open>req.body.items\<close>, as the list of its
  objects; it is \<open>None\<close> when the request has no array there, and then \<^verbatim>\<open>req.body.items\<close>
  is the scalar \<open>fld body ''items''\<close>. Of the scalars only a string has a \<^verbatim>\<open>length\<close>, so
  \<^verbatim>\<open>!items?.length\<close> holds of every scalar but a string that is not empty; such a string
  passes the check and \<^verbatim>\<open>items.map\<close>, which it does not have, throws a \<open>TypeError\<close>
  after the patient lookup. \<open>year\<close> and \<open>month\<close> are read from the clock by
  \<^verbatim>\<open>generateInvoiceRef\<close>, which runs while \<^verbatim>\<open>inv\<close> is built, after the totals.
\<close>

definition no_length :: "jsval \<Rightarrow> bool" where
  "no_length v = (case v of JStr s \<Rightarrow> s = [] | _ \<Rightarrow> True)"

definition post_invoice ::
  "store \<Rightarrow> int \<Rightarrow> nat \<Rightarrow> jsobj \<Rightarrow> jsobj list option \<Rightarrow> store \<times> response" where
  "post_invoice s year month body items =
     (case opt_trim (fld body ''owner_name'') of
        Inl f \<Rightarrow> (s, thrown f)
      | Inr None \<Rightarrow> (s, Failure 400 (Msg ''Owner name is required''))
      | Inr (Some owner_name) \<Rightarrow>
          if owner_name = [] then (s, Failure 400 (Msg ''Owner name is required''))
          else if \<not> truthy (fld body ''date'') then (s, Failure 400 (Msg ''Date is required''))
          else
            (case items of
               None \<Rightarrow>
                 if no_length (fld body ''items'')
                 then (s, Failure 400 (Msg ''At least one line item is required''))
                 else (case invoice_names s body of
                         Inl f \<Rightarrow> (s, thrown f)
                       | Inr names \<Rightarrow> (s, thrown TypeError))
             | Some its \<Rightarrow>
                 if length its = 0 then (s, Failure 400 (Msg ''At least one line item is required''))
                 else
                   (case invoice_names s body of
                      Inl f \<Rightarrow> (s, thrown f)
                    | Inr names \<Rightarrow>
                        (case generateInvoiceRef s year month of
                           Inl f \<Rightarrow> (s, thrown f)
                         | Inr (ref, s1) \<Rightarrow>
                             (case createInvoice s1 (new_invoice ref owner_name names (map lineItem its) body)
                                     (map lineItem its) of
                                Inl f \<Rightarrow> (s1, thrown f)
                              | Inr (s2, None) \<Rightarrow> (s2, thrown TypeError)
                              | Inr (s2, Some saved) \<Rightarrow>
                                  (s2, Success (Invoice_with_items saved
                                                  (invoice_getItems s2 (i_ref saved)))))))))"

text \<open>
  \<^verbatim>\<open>PATCH /api/invoices/:ref/status\<close>. \<^verbatim>\<open>inv.total\<close> and \<^verbatim>\<open>inv.paid_amount\<close> come from
  the stored row, where \<^verbatim>\<open>NULL\<close> reads as \<^verbatim>\<open>null\<close>.
\<close>

definition patch_invoice_status :: "store \<Rightarrow> string \<Rightarrow> jsobj \<Rightarrow> store \<times> response" where
  "patch_invoice_status s ref body =
     (case invoice_getById s ref of
        None \<Rightarrow> (s, Failure 404 (Msg ''Invoice not found''))
      | Some iv \<Rightarrow>
          (let status = js_or (fld body ''status'') (i_status iv);
               paid_amount0 = (if \<not> nullish (fld body ''paid_amount'')
                               then Some (parseFloat (fld body ''paid_amount''))
                               else i_paid_amount iv);
               balance0 = Some (math_max (Fin 0) (js_sub (to_number (i_total iv)) (to_number paid_amount0)));
               paid_amount1 = (if status = JStr ''Paid'' then i_total iv else paid_amount0);
               balance1 = (if status = JStr ''Paid'' then Some (Fin 0) else balance0);
               paid_amount = (if status = JStr ''Draft'' then Some (Fin 0) else paid_amount1);
               balance = (if status = JStr ''Draft'' then i_total iv else balance1)
           in case invoice_updateStatus s status paid_amount balance ref of
                Inl f \<Rightarrow> (s, thrown f)
              | Inr s1 \<Rightarrow>
                  (case invoice_getById s1 ref of
                     None \<Rightarrow> (s1, thrown TypeError)
                   | Some updated \<Rightarrow>
                       (s1, Success (Invoice_with_items updated
                                       (invoice_getItems s1 (i_ref updated)))))))"

text \<open>\<^verbatim>\<open>DELETE /api/invoices/:ref\<close>.\<close>

definition delete_invoice :: "store \<Rightarrow> string \<Rightarrow> store \<times> response" where
  "delete_invoice s ref = (invoice_delete s ref, Success (Deleted ref))"

section \<open>The specification's vocabulary\<close>

subsection \<open>Stores\<close>

text \<open>
  The store right after \<^verbatim>\<open>db.js\<close> has run on an empty database: no rows, and the two
  counters seeded by \<^verbatim>\<open>initCounter\<close>.
\<close>

definition empty_store :: store where
  "empty_store =
     \<lparr>patients = [], checkins = [], invoices = [], invoice_items = [], counters = Map.empty\<rparr>"

definition initial_store :: store where
  "initial_store = initCounter (initCounter empty_store ''invoice'' 1) ''patient'' 10000"

text \<open>
  The foreign key of \<^verbatim>\<open>invoice_items.invoice_ref\<close> as a property of a store: every line
  item belongs to a stored invoice.
\<close>

definition items_reference_invoices :: "store \<Rightarrow> bool" where
  "items_reference_invoices s =
     list_all (\<lambda>it. li_invoice_ref it \<in> set (map i_ref (invoices s))) (invoice_items s)"

text \<open>
  What a column can hold: \<^verbatim>\<open>NULL\<close>, a string, or a number other than NaN (the values
  that binding leaves as they are).
\<close>

definition column_value :: "jsval \<Rightarrow> bool" where
  "column_value v = (bindable v \<and> bound v = v)"

definition real_value :: "jsnum option \<Rightarrow> bool" where
  "real_value r = (bind_real r = r)"

subsection \<open>Invoice totals as the specification states them\<close>


definition parsed_unit_price :: "jsobj \<Rightarrow> jsnum" where
  "parsed_unit_price item = num_or (parseFloat (fld item ''unit_price'')) (Fin 0)"

definition parsed_discount :: "jsobj \<Rightarrow> jsnum" where
  "parsed_discount item = num_or (parseFloat (fld item ''discount'')) (Fin 0)"







text \<open>
  \<open>max(0, x)\<close> written out: a negative \<open>x\<close> gives 0, any other number gives \<open>x\<close>, and
  NaN gives NaN.
\<close>

fun at_least_zero :: "jsnum \<Rightarrow> jsnum" where
  "at_least_zero (Fin x) = (if x < 0 then Fin 0 else Fin x)"
| "at_least_zero NInf = Fin 0"
| "at_least_zero PInf = PInf"
| "at_least_zero NaN = NaN"

definition spec_balance :: "jsnum \<Rightarrow> jsnum \<Rightarrow> jsnum" where
  "spec_balance tot paid_amount = at_least_zero (js_sub tot paid_amount)"

subsection \<open>The example request of the specification\<close>

definition example_items :: "jsobj list" where
  "example_items =
     [[(''name'', JStr ''Consultation''), (''quantity'', JNum (Fin 2)),
       (''unit_price'', JNum (Fin 100)), (''discount'', JNum (Fin 10))],
      [(''name'', JStr ''Vaccine''), (''quantity'', JNum (Fin 1)),
       (''unit_price'', JNum (Fin 50)), (''discount'', JNum (Fin 0))]]"

definition example_body :: "rat \<Rightarrow> jsobj" where
  "example_body paid =
     [(''owner_name'', JStr ''Asha''), (''date'', JStr ''2024-11-03''),
      (''paid_amount'', JNum (Fin paid))]"

definition example_invoice :: "rat \<Rightarrow> rat \<Rightarrow> invoice" where
  "example_invoice paid balance =
     \<lparr>i_ref = ''IN:01-2411-0001'', i_patient_id = JNull, i_patient_name = JStr [],
      i_patient_type = JStr [], i_owner_name = JStr ''Asha'', i_phone = JStr [],
      i_date = JStr ''2024-11-03'', i_subtotal = Some (Fin 250), i_discount = Some (Fin 10),
      i_total = Some (Fin 240), i_paid_amount = Some (Fin paid), i_balance = Some (Fin balance),
      i_method = JNull, i_status = JStr ''Draft'', i_notes = JNull\<rparr>"

definition example_rows :: "invoice_item list" where
  "example_rows =
     [\<lparr>li_invoice_ref = ''IN:01-2411-0001'', li_name = JStr ''Consultation'',
       li_quantity = Some (Fin 2), li_unit_price = Some (Fin 100), li_discount = Some (Fin 10),
       li_total = Some (Fin 190)\<rparr>,
      \<lparr>li_invoice_ref = ''IN:01-2411-0001'', li_name = JStr ''Vaccine'',
       li_quantity = Some (Fin 1), li_unit_price = Some (Fin 50), li_discount = Some (Fin 0),
       li_total = Some (Fin 50)\<rparr>]"





subsection \<open>Requests and stores used as concrete inputs\<close>

text \<open>
  A request whose items carry zero quantities, prices and discounts, and an unreadable
  paid amount. The quantity of the third item, \<^verbatim>\<open>"1e-400"\<close>, is a literal below half the least
  double, which \<^verbatim>\<open>parseFloat\<close> reads as zero.
\<close>

definition zero_items :: "jsobj list" where
  "zero_items =
     [[(''name'', JStr ''Nail trim''), (''quantity'', JNum (Fin 0)),
       (''unit_price'', JNum (Fin 80)), (''discount'', JNum (Fin 5))],
      [(''name'', JStr ''Free check''), (''quantity'', JStr ''0''),
       (''unit_price'', JNum (Fin 0)), (''discount'', JStr ''0'')],
      [(''name'', JStr ''Sample''), (''quantity'', JStr ''1e-400''),
       (''unit_price'', JNum (Fin 30)), (''discount'', JStr ''-0'')]]"

definition zero_body :: jsobj where
  "zero_body =
     [(''owner_name'', JStr ''Asha''), (''date'', JStr ''2024-11-03''),
      (''paid_amount'', JStr ''abc'')]"

definition zero_invoice :: invoice where
  "zero_invoice =
     \<lparr>i_ref = ''IN:01-2411-0001'', i_patient_id = JNull, i_patient_name = JStr [],
      i_patient_type = JStr [], i_owner_name = JStr ''Asha'', i_phone = JStr [],
      i_date = JStr ''2024-11-03'', i_subtotal = Some (Fin 110), i_discount = Some (Fin 5),
      i_total = Some (Fin 105), i_paid_amount = Some (Fin 0), i_balance = Some (Fin 105),
      i_method = JNull, i_status = JStr ''Draft'', i_notes = JNull\<rparr>"

definition zero_rows :: "invoice_item list" where
  "zero_rows =
     [\<lparr>li_invoice_ref = ''IN:01-2411-0001'', li_name = JStr ''Nail trim'',
       li_quantity = Some (Fin 1), li_unit_price = Some (Fin 80), li_discount = Some (Fin 5),
       li_total = Some (Fin 75)\<rparr>,
      \<lparr>li_invoice_ref = ''IN:01-2411-0001'', li_name = JStr ''Free check'',
       li_quantity = Some (Fin 1), li_unit_price = Some (Fin 0), li_discount = Some (Fin 0),
       li_total = Some (Fin 0)\<rparr>,
      \<lparr>li_invoice_ref = ''IN:01-2411-0001'', li_name = JStr ''Sample'',
       li_quantity = Some (Fin 1), li_unit_price = Some (Fin 30), li_discount = Some (Fin 0),
       li_total = Some (Fin 30)\<rparr>]"

text \<open>The example request sent with status \<^verbatim>\<open>Paid\<close> and no paid amount.\<close>

definition paid_status_body :: jsobj where
  "paid_status_body =
     [(''owner_name'', JStr ''Asha''), (''date'', JStr ''2024-11-03''),
      (''status'', JStr ''Paid'')]"

text \<open>The store that holds the example invoice, unpaid.\<close>

definition billed_store :: store where
  "billed_store =
     initial_store\<lparr>invoices := [example_invoice 0 240], invoice_items := example_rows\<rparr>"

subsection \<open>Payment updates as the specification states them\<close>

text \<open>
  The paid amount of a status update: the request's value when the request has one, the
  stored value otherwise.
\<close>

definition spec_paid_amount :: "jsobj \<Rightarrow> jsnum option \<Rightarrow> jsnum option" where
  "spec_paid_amount body stored =
     (if nullish (fld body ''paid_amount'') then stored
      else Some (parseFloat (fld body ''paid_amount'')))"

text \<open>
  A store with one patient, a check-in and an invoice that reference it, and the
  invoice's line items.
\<close>

definition rex :: patient where
  "rex =
     \<lparr>p_id = ''PaCPC-10000'', p_patient_id = None, p_name = JStr ''Rex'',
      p_type = JStr ''Canine'', p_breed = JStr ''Beagle'', p_colour = JNull, p_age = JStr ''4'',
      p_gender = JNull, p_weight = Some (Fin 12), p_owner_name = JStr ''Asha'',
      p_phone = JStr ''555-0100'', p_email = JNull, p_address = JNull\<rparr>"

definition rex_visit :: checkin where
  "rex_visit =
     \<lparr>c_id = ''CI-1730600000000-k3x9'', c_patient_id = JStr ''PaCPC-10000'',
      c_patient_name = JStr ''Rex'', c_owner_name = JStr ''Asha'', c_doctor = JStr ''Dr. Rao'',
      c_date = JStr ''2024-11-03'', c_complaint = JNull, c_subjective = JNull,
      c_objective = JNull, c_assessment = JNull, c_plan = JNull, c_procedures = JNull,
      c_medications = JNull, c_followup = JNull, c_status = JStr ''open''\<rparr>"

definition clinic_store :: store where
  "clinic_store =
     \<lparr>patients = [rex], checkins = [rex_visit],
      invoices = [(example_invoice 0 240)\<lparr>i_patient_id := JStr ''PaCPC-10000''\<rparr>],
      invoice_items = example_rows,
      counters = [''invoice'' \<mapsto> 2, ''patient'' \<mapsto> 10001]\<rparr>"

text \<open>Requests that name the stored patient.\<close>

definition visit_request :: jsobj where
  "visit_request =
     [(''patient_id'', JStr ''PaCPC-10000''), (''doctor'', JStr ''Dr. Rao''),
      (''date'', JStr ''2024-11-04'')]"

definition bill_request :: jsobj where
  "bill_request =
     [(''patient_id'', JStr ''PaCPC-10000''), (''owner_name'', JStr ''Asha''),
      (''date'', JStr ''2024-11-04'')]"

subsection \<open>Required fields\<close>

text \<open>
  A required text field is blank when it is missing (\<^verbatim>\<open>undefined\<close> or \<^verbatim>\<open>null\<close>) or a
  string of white space only; it is not a text when it is a number or a boolean. A
  required date is missing when it is falsy, and the items are missing when the request
  has an empty array, or no array and nothing with a length in its place.
\<close>

definition blank :: "jsval \<Rightarrow> bool" where
  "blank v = (opt_trim v = Inr None \<or> opt_trim v = Inr (Some []))"

definition not_text :: "jsval \<Rightarrow> bool" where
  "not_text v = (opt_trim v = Inl TypeError)"

definition no_items :: "jsobj \<Rightarrow> jsobj list option \<Rightarrow> bool" where
  "no_items body items = (case items of None \<Rightarrow> no_length (fld body ''items'') | Some its \<Rightarrow> its = [])"

text \<open>The HTTP status of a response.\<close>

fun status_of :: "response \<Rightarrow> nat" where
  "status_of (Success _) = 200"
| "status_of (Failure n _) = n"

text \<open>A request with a number as the pet's name and an empty owner name.\<close>

definition numeric_name_request :: jsobj where
  "numeric_name_request = [(''name'', JNum (Fin 5)), (''owner_name'', JStr [])]"

subsection \<open>Patients: fields, valid requests, sequences of creations\<close>

text \<open>
  The field of a patient row that a request names, as the row reads in JavaScript
  (\<^verbatim>\<open>weight\<close> is a number or \<^verbatim>\<open>null\<close>); \<open>JUndef\<close> for any other name.
\<close>

definition patient_field :: "string \<Rightarrow> patient \<Rightarrow> jsval" where
  "patient_field k p =
     (if k = ''name'' then p_name p
      else if k = ''type'' then p_type p
      else if k = ''breed'' then p_breed p
      else if k = ''colour'' then p_colour p
      else if k = ''age'' then p_age p
      else if k = ''gender'' then p_gender p
      else if k = ''weight'' then (case p_weight p of None \<Rightarrow> JNull | Some n \<Rightarrow> JNum n)
      else if k = ''owner_name'' then p_owner_name p
      else if k = ''phone'' then p_phone p
      else if k = ''email'' then p_email p
      else if k = ''address'' then p_address p
      else JUndef)"

text \<open>A patient row as a database holds it: every column has a value a column can hold.\<close>

definition patient_row_ok :: "patient \<Rightarrow> bool" where
  "patient_row_ok p = (list_all column_value (patient_texts p) \<and> real_value (p_weight p))"

text \<open>
  A request that \<^verbatim>\<open>POST /api/patients\<close> accepts and can store: name and owner name are
  strings that are not blank, and no optional text field is \<^verbatim>\<open>true\<close> (the one scalar that
  cannot be bound).
\<close>

definition optional_patient_fields :: "string list" where
  "optional_patient_fields =
     [''type'', ''breed'', ''colour'', ''age'', ''gender'', ''phone'', ''email'', ''address'']"

definition creatable :: "jsobj \<Rightarrow> bool" where
  "creatable body =
     ((\<exists>t. opt_trim (fld body ''name'') = Inr (Some t) \<and> t \<noteq> [])
      \<and> (\<exists>t. opt_trim (fld body ''owner_name'') = Inr (Some t) \<and> t \<noteq> [])
      \<and> list_all (\<lambda>k. fld body k \<noteq> JBool True) optional_patient_fields)"

text \<open>Patient creations one after the other, each on the store the one before left.\<close>

fun post_patients :: "store \<Rightarrow> jsobj list \<Rightarrow> store" where
  "post_patients s [] = s"
| "post_patients s (body # bodies) = post_patients (fst (post_patient s body)) bodies"

text \<open>The request that creates the patient \<open>rex\<close>, and a second one.\<close>

definition rex_request :: jsobj where
  "rex_request =
     [(''name'', JStr ''  Rex''), (''type'', JStr ''Canine''), (''breed'', JStr ''Beagle''),
      (''age'', JStr ''4''), (''weight'', JStr ''12''), (''owner_name'', JStr ''Asha''),
      (''phone'', JStr ''555-0100'')]"

definition mia_request :: jsobj where
  "mia_request = [(''name'', JStr ''Mia''), (''owner_name'', JStr ''Ben'')]"

text \<open>A partial update of the patient: the phone and the weight only.\<close>

definition phone_update :: jsobj where
  "phone_update = [(''phone'', JStr ''555-0199''), (''weight'', JNum (Fin 13))]"

subsection \<open>The state of a database\<close>

text \<open>
  What the schema and the storage classes of SQLite guarantee of any stored state and the
  properties below rely on: every line item belongs to a stored invoice, the total of
  every invoice is a number a column can hold, and so is every column of every patient.
\<close>

definition store_ok :: "store \<Rightarrow> bool" where
  "store_ok s =
     (items_reference_invoices s
      \<and> list_all (\<lambda>iv. real_value (i_total iv)) (invoices s)
      \<and> list_all patient_row_ok (patients s))"

section \<open>Properties\<close>

subsection \<open>Evaluating the model\<close>

lemma show_nat_digit: "n < 10 \<Longrightarrow> show_nat n = [digit_char n]"
  by simp

lemma show_nat_step: "10 \<le> n \<Longrightarrow> show_nat n = show_nat (n div 10) @ [digit_char (n mod 10)]"
  by simp

declare show_nat.simps [simp del]

lemma replicate_numeral: "replicate (numeral k) x = x # replicate (pred_numeral k) x"
  by (simp add: numeral_eq_Suc)

lemmas eval_trim = js_trim_def is_ws_def is_ws2_def is_ws3_def

lemmas eval_strings = show_int_def show_nat_digit show_nat_step digit_char_def padStart0_def
  eval_trim fld_def replicate_numeral

lemmas eval_stores = initial_store_def initCounter_def empty_store_def

lemmas eval_parse = parseFloat_str_def parse_unsigned_def is_ws_def is_ws2_def is_ws3_def
  is_digit_def digits_val_def
  digit_val_def parse_exponent_def pow10_def

lemmas eval_invoice = post_invoice_def invoice_names_def generateInvoiceRef_def nextCounter_def
  invoice_ref_of_def createInvoice_def invoice_insert_def invoice_texts_def new_invoice_def
  subtotal_of_def discount_of_def lineItem_def num_or_def js_sub_def invoice_bound_def
  patient_ref_ok_def invoice_insertItem_def item_row_def invoice_getById_def
  invoice_getItems_def js_or_def Let_def

subsection \<open>Rounding\<close>

text \<open>The binary digits of a positive integer.\<close>

lemma bit_length_zero: "bit_length 0 = 0"
  by simp

lemma bit_length_step: "0 < n \<Longrightarrow> bit_length n = bit_length (n div 2) + 1"
  by simp

declare bit_length.simps [simp del]

lemma bit_length_bounds: "0 < n \<Longrightarrow> 2 ^ (bit_length n - 1) \<le> n \<and> n < 2 ^ bit_length n"
proof (induction n rule: bit_length.induct)
  case (1 n)
  show ?case
  proof (cases "n div 2 = 0")
    case True
    with 1 have "n = 1" by (simp add: div_eq_0_iff)
    then show ?thesis by (simp add: bit_length_step bit_length_zero)
  next
    case False
    then have pos: "0 < n div 2" by simp
    from 1 have n: "n \<noteq> 0" by simp
    note IH = "1.IH"[OF n pos]
    define b where "b = bit_length (n div 2)"
    have b1: "1 \<le> b" using pos by (simp add: b_def bit_length_step)
    have bl: "bit_length n = b + 1" using 1 by (simp add: bit_length_step b_def)
    from IH have lo: "2 ^ (b - 1) \<le> n div 2" and hi: "n div 2 < 2 ^ b" by (simp_all add: b_def)
    have "2 ^ b = 2 * 2 ^ (b - 1)" using b1 by (cases b) simp_all
    also have "\<dots> \<le> 2 * (n div 2)" using lo by simp
    also have "\<dots> \<le> n" by simp
    finally have l: "2 ^ b \<le> n" .
    have "n \<le> 2 * (n div 2) + 1" by presburger
    also have "\<dots> < 2 * 2 ^ b" using hi by simp
    finally have h: "n < 2 ^ (b + 1)" by simp
    from l h show ?thesis by (simp add: bl)
  qed
qed

lemma bit_length_pos: "0 < n \<Longrightarrow> 1 \<le> bit_length n"
  by (simp add: bit_length_step)

lemma bit_length_le: "n < 2 ^ k \<Longrightarrow> bit_length n \<le> k"
proof (cases "0 < n")
  case True
  assume "n < 2 ^ k"
  with bit_length_bounds[OF True] have "(2::nat) ^ (bit_length n - 1) < 2 ^ k"
    by (meson le_less_trans)
  then have "bit_length n - 1 < k"
    by (simp only: power_strict_increasing_iff one_less_numeral_iff semiring_norm)
  then show ?thesis by simp
next
  case False
  then show ?thesis by (simp add: bit_length_zero)
qed

lemma bits_bounds: "0 < x \<Longrightarrow> 2 ^ nat (bits x - 1) \<le> x \<and> x < 2 ^ nat (bits x)"
proof -
  assume x: "0 < x"
  then have n: "0 < nat x" by simp
  from bit_length_bounds[OF n] have "int (2 ^ (bit_length (nat x) - 1)) \<le> int (nat x)"
    and "int (nat x) < int (2 ^ bit_length (nat x))"
    by (simp_all only: of_nat_le_iff of_nat_less_iff)
  moreover have "nat (bits x - 1) = bit_length (nat x) - 1" by (simp add: bits_def)
  ultimately show ?thesis using x by (simp add: bits_def)
qed

lemma bits_pos: "0 < x \<Longrightarrow> 1 \<le> bits x"
  using bit_length_pos[of "nat x"] by (simp add: bits_def)

lemma bits_le: "0 \<le> x \<Longrightarrow> x < 2 ^ k \<Longrightarrow> bits x \<le> int k"
  using bit_length_le[of "nat x" k] by (simp add: bits_def nat_less_iff)

lemma bits_zero [simp]: "bits 0 = 0"
  by (simp add: bits_def bit_length_zero)

lemma bits_step: "0 < x \<Longrightarrow> bits x = bits (x div 2) + 1"
  by (simp add: bits_def bit_length_step nat_div_distrib)

text \<open>Evaluating \<open>round_double\<close> at a number given in digits.\<close>

lemma floor_numeral_div: "\<lfloor>numeral a / numeral b :: rat\<rfloor> = numeral a div numeral b"
  using floor_divide_of_int_eq[of "numeral a" "numeral b", where ?'a = rat] by simp

lemma floor_one_div: "\<lfloor>1 / numeral b :: rat\<rfloor> = 1 div numeral b"
  using floor_divide_of_int_eq[of 1 "numeral b", where ?'a = rat] by simp

lemma ceiling_numeral_div: "\<lceil>numeral a / numeral b :: rat\<rceil> = - (- numeral a div numeral b)"
  using floor_divide_of_int_eq[of "- numeral a" "numeral b", where ?'a = rat]
  by (simp add: ceiling_def)

lemma ceiling_one_div: "\<lceil>1 / numeral b :: rat\<rceil> = - (- 1 div numeral b)"
  using floor_divide_of_int_eq[of "- 1" "numeral b", where ?'a = rat]
  by (simp add: ceiling_def)

lemmas eval_double = round_double_def round_pos_def round_even_def flog2_def pow2_def Let_def
  bits_step floor_numeral_div floor_one_div ceiling_numeral_div ceiling_one_div

text \<open>\<open>flog2 x\<close> is the exponent of the power of two at or below a positive \<open>x\<close>.\<close>

lemma flog2_bounds:
  assumes "0 < x"
  shows "pow2 (flog2 x) \<le> x \<and> x < pow2 (flog2 x + 1)"
proof (cases "1 \<le> x")
  case True
  define n where "n = \<lfloor>x\<rfloor>"
  have n: "0 < n" using True by (simp add: n_def)
  note bb = bits_bounds[OF n]
  have b1: "1 \<le> bits n" using n by (rule bits_pos)
  have f: "flog2 x = bits n - 1" using True by (simp add: flog2_def n_def)
  have lo: "pow2 (bits n - 1) \<le> x"
  proof -
    have "pow2 (bits n - 1) = of_int (2 ^ nat (bits n - 1))" using b1 by (simp add: pow2_def)
    also have "\<dots> \<le> of_int n" using bb by (simp only: of_int_le_iff)
    also have "\<dots> \<le> x" by (simp add: n_def)
    finally show ?thesis .
  qed
  have hi: "x < pow2 (bits n)"
  proof -
    have "x < of_int (n + 1)" unfolding n_def by linarith
    also have "\<dots> \<le> of_int (2 ^ nat (bits n))" using bb by (simp only: of_int_le_iff) simp
    also have "\<dots> = pow2 (bits n)" using b1 by (simp add: pow2_def)
    finally show ?thesis .
  qed
  from lo hi show ?thesis by (simp add: f)
next
  case False
  define m where "m = \<lceil>1 / x\<rceil> - 1"
  from False assms have y: "1 < 1 / x" by simp
  then have m: "0 < m" by (simp add: m_def less_ceiling_iff)
  have m_lt: "of_int m < 1 / x" by (simp add: m_def) (metis ceiling_correct diff_less_eq)
  have m_ge: "1 / x \<le> of_int (m + 1)" by (simp add: m_def)
  note bb = bits_bounds[OF m]
  have b1: "1 \<le> bits m" using m by (rule bits_pos)
  have f: "flog2 x = - bits m" using False by (simp add: flog2_def m_def)
  have lo: "pow2 (- bits m) \<le> x"
  proof -
    have "1 / x \<le> of_int (m + 1)" by (rule m_ge)
    also have "\<dots> \<le> of_int (2 ^ nat (bits m))" using bb by (simp only: of_int_le_iff) simp
    finally have "1 / x \<le> 2 ^ nat (bits m)" by simp
    then have "1 \<le> 2 ^ nat (bits m) * x" using assms by (simp add: field_simps)
    then have "1 / 2 ^ nat (bits m) \<le> x" by (simp add: field_simps)
    then show ?thesis using b1 by (simp add: pow2_def)
  qed
  have hi: "x < pow2 (- bits m + 1)"
  proof -
    have "of_int (2 ^ nat (bits m - 1)) \<le> (of_int m :: rat)" using bb by (simp only: of_int_le_iff)
    also note m_lt
    finally have "2 ^ nat (bits m - 1) < 1 / x" by simp
    then have "2 ^ nat (bits m - 1) * x < 1" using assms by (simp add: field_simps)
    then have "x < 1 / 2 ^ nat (bits m - 1)" by (simp add: field_simps)
    then show ?thesis using b1 by (auto simp: pow2_def)
  qed
  from lo hi show ?thesis by (simp add: f)
qed

text \<open>\<open>round_even\<close> returns an integer at distance at most one half, and keeps an integer.\<close>

lemma round_even_nearest: "\<bar>of_int (round_even x) - x\<bar> \<le> 1 / 2"
proof -
  define f where "f = \<lfloor>x\<rfloor>"
  have b: "of_int f \<le> x" "x < of_int f + 1" unfolding f_def by linarith+
  have "round_even x = (if x - of_int f < 1 / 2 then f
          else if 1 / 2 < x - of_int f then f + 1 else if even f then f else f + 1)"
    by (simp add: round_even_def Let_def f_def)
  with b show ?thesis by (auto simp: abs_if)
qed

lemma round_even_of_int: "round_even (of_int k) = k"
  by (simp add: round_even_def)

text \<open>Powers of two.\<close>

lemma pow2_pos [simp]: "0 < pow2 e"
  by (simp add: pow2_def)

lemma pow2_sign [simp]: "pow2 e \<noteq> 0" "0 \<le> pow2 e" "\<not> pow2 e < 0" "\<not> pow2 e \<le> 0"
  by (simp_all add: pow2_def not_le)

lemma pow2_zero [simp]: "pow2 0 = 1"
  by (simp add: pow2_def)

lemma pow2_one [simp]: "pow2 1 = 2"
  by (simp add: pow2_def)

lemma pow2_powi: "pow2 e = 2 powi e"
  by (simp add: pow2_def power_int_def inverse_eq_divide power_one_over)

lemma pow2_numeral: "pow2 (numeral k) = 2 ^ numeral k"
  by (simp add: pow2_def)

lemma pow2_add: "pow2 (a + b) = pow2 a * pow2 b"
  by (simp add: pow2_powi power_int_add)

lemma pow2_less: "a < b \<Longrightarrow> pow2 a < pow2 b"
  by (simp add: pow2_powi power_int_strict_increasing)

lemma pow2_le: "a \<le> b \<Longrightarrow> pow2 a \<le> pow2 b"
  by (simp add: pow2_powi power_int_increasing)

lemma pow2_nat: "0 \<le> e \<Longrightarrow> pow2 e = 2 ^ nat e"
  by (simp add: pow2_def)

lemma flog2_unique:
  assumes "0 < x" and lo: "pow2 j \<le> x" and hi: "x < pow2 (j + 1)"
  shows "flog2 x = j"
proof (rule ccontr)
  assume "flog2 x \<noteq> j"
  then consider "flog2 x + 1 \<le> j" | "j + 1 \<le> flog2 x" by linarith
  then show False
  proof cases
    case 1
    have "x < pow2 (flog2 x + 1)" using flog2_bounds[OF assms(1)] by simp
    also have "\<dots> \<le> pow2 j" using 1 by (rule pow2_le)
    finally show False using lo by simp
  next
    case 2
    have "x < pow2 (j + 1)" by (rule hi)
    also have "\<dots> \<le> pow2 (flog2 x)" using 2 by (rule pow2_le)
    also have "\<dots> \<le> x" using flog2_bounds[OF assms(1)] by simp
    finally show False by simp
  qed
qed

lemma flog2_scaled:
  assumes "0 < m"
  shows "flog2 (of_int m * pow2 e) = bits m - 1 + e"
proof (rule flog2_unique)
  note bb = bits_bounds[OF assms]
  have b1: "1 \<le> bits m" using assms by (rule bits_pos)
  show "0 < rat_of_int m * pow2 e" using assms by simp
  have "pow2 (bits m - 1) = of_int (2 ^ nat (bits m - 1))" using b1 by (simp add: pow2_nat)
  also have "\<dots> \<le> of_int m" using bb by (simp only: of_int_le_iff)
  finally have "pow2 (bits m - 1) * pow2 e \<le> of_int m * pow2 e"
    by (simp add: mult_right_mono)
  then show "pow2 (bits m - 1 + e) \<le> rat_of_int m * pow2 e" by (simp add: pow2_add)
  have "rat_of_int m < of_int (2 ^ nat (bits m))" using bb by (simp only: of_int_less_iff)
  also have "\<dots> = pow2 (bits m)" using b1 by (simp add: pow2_nat)
  finally have "of_int m * pow2 e < pow2 (bits m) * pow2 e"
    by (simp add: mult_strict_right_mono)
  then show "rat_of_int m * pow2 e < pow2 (bits m - 1 + e + 1)" by (simp add: pow2_add)
qed

lemma round_even_ge: "of_int n \<le> y \<Longrightarrow> n \<le> round_even y"
proof -
  assume "of_int n \<le> y"
  then have "n \<le> \<lfloor>y\<rfloor>" by (simp add: le_floor_iff)
  then show ?thesis by (auto simp: round_even_def Let_def)
qed

lemma round_even_le: "y \<le> of_int n \<Longrightarrow> round_even y \<le> n"
proof -
  assume a: "y \<le> of_int n"
  define f where "f = \<lfloor>y\<rfloor>"
  have b: "of_int f \<le> y" "y < of_int f + 1" unfolding f_def by linarith+
  have fn: "f \<le> n" using a b by linarith
  have up: "f + 1 \<le> n" if "0 < y - of_int f"
  proof -
    from that a have "rat_of_int f < of_int n" by linarith
    then show ?thesis by simp
  qed
  have "round_even y = (if y - of_int f < 1 / 2 then f
          else if 1 / 2 < y - of_int f then f + 1 else if even f then f else f + 1)"
    by (simp add: round_even_def Let_def f_def)
  with fn up show ?thesis by (auto split: if_splits)
qed

text \<open>A double is a fixed point of the rounding.\<close>

lemma round_pos_double:
  assumes m: "0 < m" "m < 2 ^ 53" and e: "- 1074 \<le> e" "e \<le> 971"
  shows "round_pos (of_int m * pow2 e) = Fin (of_int m * pow2 e)"
proof -
  let ?x = "rat_of_int m * pow2 e"
  have b: "bits m \<le> 53" using m bits_le[of m 53] by simp
  define e' where "e' = max (flog2 ?x - 52) (- 1074)"
  have e'le: "e' \<le> e" using b e by (simp add: e'_def flog2_scaled[OF m(1)])
  define j where "j = nat (e - e')"
  have "pow2 e = pow2 (e' + int j)" using e'le by (simp add: j_def)
  then have pe: "pow2 e = pow2 e' * 2 ^ j" by (simp add: pow2_add pow2_nat)
  have q: "?x / pow2 e' = of_int (m * 2 ^ j)" by (simp add: pe)
  have r: "of_int (round_even (?x / pow2 e')) * pow2 e' = ?x"
    unfolding q round_even_of_int by (simp add: pe)
  have "rat_of_int m < of_int (2 ^ 53)" using m(2) by (simp only: of_int_less_iff)
  then have "rat_of_int m < pow2 53" by (simp add: pow2_numeral)
  then have "?x < pow2 53 * pow2 e" by (simp add: mult_strict_right_mono)
  also have "\<dots> = pow2 (53 + e)" by (simp add: pow2_add)
  also have "\<dots> \<le> pow2 1024" using e by (intro pow2_le) simp
  finally have small: "\<not> pow2 1024 \<le> ?x" by simp
  show ?thesis
    unfolding round_pos_def Let_def e'_def[symmetric] r using small by simp
qed

lemma round_double_double:
  assumes "\<bar>m\<bar> < 2 ^ 53" and "- 1074 \<le> e" and "e \<le> 971"
  shows "round_double (of_int m * pow2 e) = Fin (of_int m * pow2 e)"
proof -
  consider "m = 0" | "0 < m" | "m < 0" by linarith
  then show ?thesis
  proof cases
    case 1
    then show ?thesis by (simp add: round_double_def)
  next
    case 2
    with assms have "round_pos (of_int m * pow2 e) = Fin (of_int m * pow2 e)"
      by (intro round_pos_double) simp_all
    with 2 show ?thesis by (simp add: round_double_def zero_less_mult_iff)
  next
    case 3
    with assms have "round_pos (of_int (- m) * pow2 e) = Fin (of_int (- m) * pow2 e)"
      by (intro round_pos_double) simp_all
    with 3 show ?thesis by (simp add: round_double_def zero_less_mult_iff mult_less_0_iff)
  qed
qed

text \<open>What the rounding returns is a double or an infinity.\<close>

lemma round_pos_range:
  assumes x: "0 < x" and r: "round_pos x = Fin r"
  shows "\<exists>m e. r = of_int m * pow2 e \<and> 0 \<le> m \<and> m < 2 ^ 53 \<and> - 1074 \<le> e \<and> e \<le> 971"
proof -
  define k where "k = flog2 x"
  define e where "e = max (k - 52) (- 1074)"
  define y where "y = x / pow2 e"
  define m where "m = round_even y"
  from r have r_eq: "r = of_int m * pow2 e" and r_lt: "r < pow2 1024"
    by (auto simp: round_pos_def Let_def k_def e_def y_def m_def split: if_splits)
  note kb = flog2_bounds[OF x, folded k_def]
  have e_lo: "- 1074 \<le> e" by (simp add: e_def)
  have y_pos: "0 < y" using x by (simp add: y_def)
  have "x < pow2 (k + 1)" using kb by simp
  also have "\<dots> \<le> pow2 (e + 53)" by (intro pow2_le) (simp add: e_def)
  also have "\<dots> = pow2 e * 2 ^ 53" by (simp add: pow2_add pow2_numeral)
  finally have "y < 2 ^ 53" by (simp add: y_def pos_divide_less_eq mult.commute)
  then have "y \<le> of_int (2 ^ 53)" by simp
  then have m_hi: "m \<le> 2 ^ 53" unfolding m_def by (rule round_even_le)
  have "of_int 0 \<le> y" using y_pos by simp
  then have m_lo: "0 \<le> m" unfolding m_def by (rule round_even_ge)
  have e_hi: "e + int j < 1024" if "2 ^ j \<le> m" for j
  proof -
    from that have "of_int (2 ^ j) \<le> rat_of_int m" by (simp only: of_int_le_iff)
    then have "pow2 (int j) \<le> of_int m" by (simp add: pow2_nat)
    then have "pow2 (int j) * pow2 e \<le> of_int m * pow2 e" by (simp add: mult_right_mono)
    then have "pow2 (e + int j) \<le> r" by (simp add: r_eq pow2_add mult.commute)
    with r_lt have "pow2 (e + int j) < pow2 1024" by simp
    then show ?thesis using pow2_le[of 1024 "e + int j"] by (cases "e + int j < 1024") auto
  qed
  show ?thesis
  proof (cases "m < 2 ^ 53")
    case True
    have "e \<le> 971"
    proof (cases "e = - 1074")
      case True
      then show ?thesis by simp
    next
      case False
      then have ek: "e = k - 52" by (simp add: e_def max_def split: if_splits)
      have "pow2 (e + 52) \<le> x" using kb by (simp add: ek)
      then have "pow2 e * 2 ^ 52 \<le> x" by (simp add: pow2_add pow2_numeral)
      then have "of_int (2 ^ 52) \<le> y" by (simp add: y_def pos_le_divide_eq mult.commute)
      then have "2 ^ 52 \<le> m" unfolding m_def by (rule round_even_ge)
      from e_hi[of 52] this show ?thesis by simp
    qed
    with True m_lo e_lo r_eq show ?thesis by blast
  next
    case False
    with m_hi have m53: "m = 2 ^ 53" by simp
    then have "e + 53 < 1024" using e_hi[of 53] by simp
    moreover have "r = of_int (2 ^ 52) * pow2 (e + 1)"
      by (simp add: r_eq m53 pow2_add pow2_numeral)
    ultimately show ?thesis using e_lo
      by (intro exI[of _ "2 ^ 52"] exI[of _ "e + 1"]) simp
  qed
qed

lemma round_pos_nonneg: "0 < x \<Longrightarrow> round_pos x = Fin r \<Longrightarrow> 0 \<le> r"
  using round_pos_range[of x r] by (auto simp: zero_le_mult_iff less_imp_le)

lemma round_double_range:
  assumes "round_double x = Fin r"
  shows "\<exists>m e. r = of_int m * pow2 e \<and> \<bar>m\<bar> < 2 ^ 53 \<and> - 1074 \<le> e \<and> e \<le> 971"
proof -
  consider "x = 0" | "0 < x" | "x < 0" by linarith
  then show ?thesis
  proof cases
    case 1
    with assms have "r = of_int 0 * pow2 0" by (simp add: round_double_def)
    then show ?thesis by (intro exI[of _ 0]) simp
  next
    case 2
    with assms have "round_pos x = Fin r" by (simp add: round_double_def)
    from round_pos_range[OF 2 this] obtain m e where
      "r = of_int m * pow2 e" "0 \<le> m" "m < 2 ^ 53" "- 1074 \<le> e" "e \<le> 971"
      by blast
    then show ?thesis
      by (intro exI[of _ m] exI[of _ e]) simp
  next
    case 3
    with assms obtain r' where r': "round_pos (- x) = Fin r'" and rr: "r = - r'"
      by (cases "round_pos (- x)") (auto simp: round_double_def)
    from 3 have "0 < - x" by simp
    from round_pos_range[OF this r'] obtain m e where
      "r' = of_int m * pow2 e" "0 \<le> m" "m < 2 ^ 53" "- 1074 \<le> e" "e \<le> 971"
      by blast
    then show ?thesis
      by (intro exI[of _ "- m"] exI[of _ e]) (simp add: rr)
  qed
qed

text \<open>The result is within half the spacing of the doubles around \<open>x\<close>.\<close>

lemma round_pos_error:
  assumes x: "0 < x" and r: "round_pos x = Fin r"
  shows "\<bar>r - x\<bar> \<le> pow2 (max (flog2 x - 52) (- 1074)) / 2"
proof -
  define e where "e = max (flog2 x - 52) (- 1074)"
  from r have r_eq: "r = of_int (round_even (x / pow2 e)) * pow2 e"
    by (auto simp: round_pos_def Let_def e_def split: if_splits)
  have "r - x = (of_int (round_even (x / pow2 e)) - x / pow2 e) * pow2 e"
    by (simp add: r_eq algebra_simps)
  then have "\<bar>r - x\<bar> = \<bar>of_int (round_even (x / pow2 e)) - x / pow2 e\<bar> * pow2 e"
    by (simp add: abs_mult)
  also have "\<dots> \<le> 1 / 2 * pow2 e"
    by (intro mult_right_mono round_even_nearest) simp
  finally show ?thesis by (simp add: e_def)
qed

text \<open>An integer of magnitude below \<open>2\<^bsup>53\<^esup>\<close> is a double.\<close>

lemma round_double_of_int:
  assumes "\<bar>n\<bar> < 2 ^ 53"
  shows "round_double (of_int n) = Fin (of_int n)"
  using round_double_double[OF assms, of 0] by simp

lemma round_double_numeral [simp]:
  "(numeral k :: int) < 9007199254740992 \<Longrightarrow> round_double (numeral k) = Fin (numeral k)"
  using round_double_of_int[of "numeral k"] by simp

lemma round_double_neg_numeral [simp]:
  "(numeral k :: int) < 9007199254740992 \<Longrightarrow> round_double (- numeral k) = Fin (- numeral k)"
  using round_double_of_int[of "- numeral k"] by simp

lemma round_double_zero [simp]: "round_double 0 = Fin 0"
  by (simp add: round_double_def)

lemma round_double_one [simp]: "round_double 1 = Fin 1"
  using round_double_of_int[of 1] by simp

subsection \<open>Arithmetic of JavaScript numbers\<close>

text \<open>\<^verbatim>\<open>Math.max(0, x)\<close> is \<open>x\<close> raised to zero when it is negative.\<close>

lemma math_max_zero: "math_max (Fin 0) x = at_least_zero x"
  by (cases x) (simp_all add: max_def)

text \<open>
  Addition rounds, and is not associative: with the doubles nearest to 0.1, 0.2 and 0.3,
  \<^verbatim>\<open>(0.1 + 0.2) + 0.3\<close> is \<^verbatim>\<open>0.6000000000000001\<close> and \<^verbatim>\<open>0.1 + (0.2 + 0.3)\<close> is \<^verbatim>\<open>0.6\<close>.
\<close>

lemma js_add_not_associative:
  "js_add (js_add (Fin (3602879701896397 / 2 ^ 55)) (Fin (3602879701896397 / 2 ^ 54)))
          (Fin (5404319552844595 / 2 ^ 54))
     = Fin (1351079888211149 / 2 ^ 51)
   \<and> js_add (Fin (3602879701896397 / 2 ^ 55))
            (js_add (Fin (3602879701896397 / 2 ^ 54)) (Fin (5404319552844595 / 2 ^ 54)))
     = Fin (5404319552844595 / 2 ^ 53)"
  by (simp add: eval_double)

text \<open>\<^verbatim>\<open>parseFloat\<close> rounds: \<^verbatim>\<open>"0.1"\<close> reads as the double nearest to one tenth.\<close>

lemma parse_tenth: "parseFloat_str ''0.1'' = Fin (3602879701896397 / 2 ^ 55)"
  by (simp add: eval_parse eval_double)



subsection \<open>What the statements of an invoice creation write\<close>

lemma find_append_fresh:
  "\<forall>x\<in>set xs. \<not> P x \<Longrightarrow> P y \<Longrightarrow> find P (xs @ [y]) = Some y"
  by (induction xs) auto

lemma i_ref_invoice_bound [simp]: "i_ref (invoice_bound iv) = i_ref iv"
  by (simp add: invoice_bound_def)

lemma i_ref_new_invoice [simp]: "i_ref (new_invoice ref owner_name names ls body) = ref"
  by (simp add: new_invoice_def Let_def)

lemma nextCounter_tables:
  "nextCounter s k = Inr (n, s') \<Longrightarrow>
     patients s' = patients s \<and> checkins s' = checkins s \<and> invoices s' = invoices s
     \<and> invoice_items s' = invoice_items s"
  by (auto simp: nextCounter_def split: option.splits)

lemma insertItems_ok:
  "insertItems s ref ls = Inr s' \<Longrightarrow>
     s' = s\<lparr>invoice_items := invoice_items s @ map (item_row ref) ls\<rparr>"
proof (induction ls arbitrary: s)
  case Nil
  then show ?case by simp
next
  case (Cons l ls)
  from Cons.prems obtain s1 where a: "invoice_insertItem s ref l = Inr s1"
    and b: "insertItems s1 ref ls = Inr s'"
    by (auto split: sum.splits)
  from a have s1: "s1 = s\<lparr>invoice_items := invoice_items s @ [item_row ref l]\<rparr>"
    by (auto simp: invoice_insertItem_def split: if_splits)
  from Cons.IH[OF b] show ?case by (simp add: s1)
qed

lemma createInvoice_ok:
  assumes "createInvoice s iv ls = Inr (s', r)"
  shows "s' = s\<lparr>invoices := invoices s @ [invoice_bound iv],
                 invoice_items := invoice_items s @ map (item_row (i_ref iv)) ls\<rparr>"
    and "r = Some (invoice_bound iv)"
    and "i_ref iv \<notin> set (map i_ref (invoices s))"
proof -
  from assms obtain s1 where a: "invoice_insert s iv = Inr s1"
    and b: "insertItems s1 (i_ref iv) ls = Inr s'" and c: "r = invoice_getById s' (i_ref iv)"
    by (auto simp: createInvoice_def split: sum.splits)
  from a have s1: "s1 = s\<lparr>invoices := invoices s @ [invoice_bound iv]\<rparr>"
    and fresh: "i_ref iv \<notin> set (map i_ref (invoices s))"
    by (auto simp: invoice_insert_def split: if_splits)
  from insertItems_ok[OF b]
  show s': "s' = s\<lparr>invoices := invoices s @ [invoice_bound iv],
                   invoice_items := invoice_items s @ map (item_row (i_ref iv)) ls\<rparr>"
    by (simp add: s1)
  show "i_ref iv \<notin> set (map i_ref (invoices s))" by (rule fresh)
  have "\<forall>x\<in>set (invoices s). i_ref x \<noteq> i_ref iv" using fresh by (auto simp: image_iff)
  then have "find (\<lambda>i. i_ref i = i_ref iv) (invoices s @ [invoice_bound iv]) = Some (invoice_bound iv)"
    by (rule find_append_fresh) simp
  then show "r = Some (invoice_bound iv)" by (simp add: c s' invoice_getById_def)
qed

text \<open>A successful \<^verbatim>\<open>POST /api/invoices\<close> went through the counter and the transaction.\<close>

lemma post_invoice_Success:
  assumes "post_invoice s year month body (Some its) = (s', Success pl)"
  obtains owner_name names ref s1 where
    "generateInvoiceRef s year month = Inr (ref, s1)"
    "createInvoice s1 (new_invoice ref owner_name names (map lineItem its) body) (map lineItem its)
       = Inr (s', Some (invoice_bound (new_invoice ref owner_name names (map lineItem its) body)))"
    "pl = Invoice_with_items (invoice_bound (new_invoice ref owner_name names (map lineItem its) body))
            (invoice_getItems s' ref)"
proof -
  from assms obtain owner_name names ref s1 saved where
    g: "generateInvoiceRef s year month = Inr (ref, s1)" and
    c: "createInvoice s1 (new_invoice ref owner_name names (map lineItem its) body) (map lineItem its)
       = Inr (s', Some saved)" and
    p: "pl = Invoice_with_items saved (invoice_getItems s' (i_ref saved))"
    by (auto simp: post_invoice_def thrown_def split: sum.splits option.splits if_splits prod.splits)
  from createInvoice_ok(2)[OF c]
  have sv: "saved = invoice_bound (new_invoice ref owner_name names (map lineItem its) body)"
    by simp
  have r: "i_ref saved = ref" by (simp add: sv)
  show ?thesis using that[OF g] c p sv r by simp
qed

text \<open>What such a request leaves in the store and answers.\<close>

lemma post_invoice_stored:
  assumes ok: "post_invoice s year month body (Some its)
                 = (s', Success (Invoice_with_items saved rows))"
    and fk: "items_reference_invoices s"
  obtains ref owner_name names where
    "saved = invoice_bound (new_invoice ref owner_name names (map lineItem its) body)"
    "rows = map (item_row ref) (map lineItem its)"
    "invoice_getById s' ref = Some saved"
    "invoice_getItems s' ref = rows"
proof -
  from ok obtain owner_name names ref s1 where
    g: "generateInvoiceRef s year month = Inr (ref, s1)" and
    c: "createInvoice s1 (new_invoice ref owner_name names (map lineItem its) body) (map lineItem its)
       = Inr (s', Some (invoice_bound (new_invoice ref owner_name names (map lineItem its) body)))" and
    p: "Invoice_with_items saved rows
          = Invoice_with_items (invoice_bound (new_invoice ref owner_name names (map lineItem its) body))
              (invoice_getItems s' ref)"
    by (rule post_invoice_Success)
  let ?iv = "new_invoice ref owner_name names (map lineItem its) body"
  have sv: "saved = invoice_bound ?iv" and rows: "rows = invoice_getItems s' ref"
    using p by simp_all
  from g have tabs: "invoices s1 = invoices s" "invoice_items s1 = invoice_items s"
    by (auto simp: generateInvoiceRef_def split: sum.splits prod.splits dest: nextCounter_tables)
  note co = createInvoice_ok[OF c, simplified]
  have fresh: "ref \<notin> set (map i_ref (invoices s))" using co(3) tabs by simp
  have old: "filter (\<lambda>it. li_invoice_ref it = ref) (invoice_items s) = []"
    using fk fresh by (auto simp: items_reference_invoices_def list_all_iff filter_empty_conv)
  have rows_eq: "rows = map (item_row ref) (map lineItem its)"
    by (simp add: rows invoice_getItems_def co(1) tabs old item_row_def filter_id_conv)
  have get: "invoice_getById s' ref = Some saved"
    using c by (simp add: createInvoice_def sv split: sum.splits)
  from sv rows_eq get rows show ?thesis by (rule that[OF _ _ _ sym])
qed





lemma initial_store_items: "items_reference_invoices initial_store"
  by (simp add: items_reference_invoices_def eval_stores)

subsection \<open>Invoice totals\<close>



subsection \<open>The numeric defaults of an invoice creation\<close>

text \<open>
  What \<^verbatim>\<open>parseFloat\<close> reads from the texts of the request \<open>zero_items\<close>, and from a
  literal too large for a double.
\<close>

lemma parse_zero: "parseFloat_str ''0'' = Fin 0"
  by (simp add: eval_parse)

lemma parse_minus_zero: "parseFloat_str ''-0'' = Fin 0"
  by (simp add: eval_parse)

lemma parse_letters: "parseFloat_str ''abc'' = NaN"
  by (simp add: eval_parse)

lemma parse_underflow: "parseFloat_str ''1e-400'' = Fin 0"
  by (simp add: eval_parse eval_double)

lemma parse_overflow: "parseFloat_str ''1e400'' = PInf"
  by (simp add: eval_parse eval_double)

lemma zero_post:
  "snd (post_invoice initial_store 2024 10 zero_body (Some zero_items))
     = Success (Invoice_with_items zero_invoice zero_rows)"
  by (simp add: eval_invoice eval_strings eval_stores parse_zero parse_minus_zero parse_letters
        parse_underflow zero_body_def zero_items_def zero_invoice_def zero_rows_def)

text \<open>
  C10. In a successful \<^verbatim>\<open>POST /api/invoices\<close>, a line item whose quantity parses to 0 is
  stored with quantity 1 and the line total \<open>1 \<times> unit_price - discount\<close>; a unit price or a
  discount that parses to 0 is stored as 0; a paid amount that does not parse is stored
  as 0.
\<close>

theorem zero_quantity_stored_as_one:
  assumes ok: "post_invoice s year month body (Some its)
                 = (s', Success (Invoice_with_items saved rows))"
    and fk: "items_reference_invoices s"
    and k: "k < length its"
  shows "(parseFloat (fld (its ! k) ''quantity'') = Fin 0 \<longrightarrow>
            li_quantity (rows ! k) = Some (Fin 1)
            \<and> li_total (rows ! k)
                = bind_real (Some (js_sub (js_mul (Fin 1) (parsed_unit_price (its ! k)))
                                          (parsed_discount (its ! k)))))
       \<and> (parseFloat (fld (its ! k) ''unit_price'') = Fin 0 \<longrightarrow>
            li_unit_price (rows ! k) = Some (Fin 0))
       \<and> (parseFloat (fld (its ! k) ''discount'') = Fin 0 \<longrightarrow>
            li_discount (rows ! k) = Some (Fin 0))
       \<and> (parseFloat (fld body ''paid_amount'') = NaN \<longrightarrow> i_paid_amount saved = Some (Fin 0))"
proof -
  from ok fk obtain ref owner_name names where
    sv: "saved = invoice_bound (new_invoice ref owner_name names (map lineItem its) body)" and
    rows_eq: "rows = map (item_row ref) (map lineItem its)"
    by (rule post_invoice_stored)
  have row: "rows ! k = item_row ref (lineItem (its ! k))"
    using k by (simp add: rows_eq)
  have q: "parseFloat (fld (its ! k) ''quantity'') = Fin 0 \<Longrightarrow>
            li_quantity (rows ! k) = Some (Fin 1)
            \<and> li_total (rows ! k)
                = bind_real (Some (js_sub (js_mul (Fin 1) (parsed_unit_price (its ! k)))
                                          (parsed_discount (its ! k))))"
    by (simp add: row item_row_def lineItem_def num_or_def parsed_unit_price_def
          parsed_discount_def)
  have p: "parseFloat (fld (its ! k) ''unit_price'') = Fin 0 \<Longrightarrow>
            li_unit_price (rows ! k) = Some (Fin 0)"
    by (simp add: row item_row_def lineItem_def num_or_def)
  have d: "parseFloat (fld (its ! k) ''discount'') = Fin 0 \<Longrightarrow>
            li_discount (rows ! k) = Some (Fin 0)"
    by (simp add: row item_row_def lineItem_def num_or_def)
  have a: "parseFloat (fld body ''paid_amount'') = NaN \<Longrightarrow> i_paid_amount saved = Some (Fin 0)"
    by (simp add: sv invoice_bound_def new_invoice_def Let_def num_or_def)
  from q p d a show ?thesis by blast
qed

text \<open>
  The second item of the request \<open>zero_items\<close> has the quantity \<^verbatim>\<open>"0"\<close>, the unit price
  \<^verbatim>\<open>0\<close> and the discount \<^verbatim>\<open>"0"\<close>; the third has the quantity \<^verbatim>\<open>"1e-400"\<close>, which reads as
  zero, the unit price 30 and the discount \<^verbatim>\<open>"-0"\<close>; the paid amount of the request is
  \<^verbatim>\<open>"abc"\<close>.
\<close>

theorem zero_quantity_stored_as_one_witness:
  "post_invoice initial_store 2024 10 zero_body (Some zero_items)
     = (fst (post_invoice initial_store 2024 10 zero_body (Some zero_items)),
        Success (Invoice_with_items zero_invoice zero_rows))
   \<and> items_reference_invoices initial_store
   \<and> 1 < length zero_items
   \<and> parseFloat (fld (zero_items ! 1) ''quantity'') = Fin 0
   \<and> parseFloat (fld (zero_items ! 1) ''unit_price'') = Fin 0
   \<and> parseFloat (fld (zero_items ! 1) ''discount'') = Fin 0
   \<and> parseFloat (fld zero_body ''paid_amount'') = NaN
   \<and> li_quantity (zero_rows ! 1) = Some (Fin 1)
   \<and> li_total (zero_rows ! 1)
       = bind_real (Some (js_sub (js_mul (Fin 1) (parsed_unit_price (zero_items ! 1)))
                                 (parsed_discount (zero_items ! 1))))
   \<and> li_unit_price (zero_rows ! 1) = Some (Fin 0)
   \<and> li_discount (zero_rows ! 1) = Some (Fin 0)
   \<and> i_paid_amount zero_invoice = Some (Fin 0)
   \<and> 2 < length zero_items
   \<and> parseFloat (fld (zero_items ! 2) ''quantity'') = Fin 0
   \<and> parseFloat (fld (zero_items ! 2) ''discount'') = Fin 0
   \<and> li_quantity (zero_rows ! 2) = Some (Fin 1)
   \<and> bind_real (Some (js_sub (js_mul (Fin 1) (parsed_unit_price (zero_items ! 2)))
                             (parsed_discount (zero_items ! 2)))) = Some (Fin 30)
   \<and> li_discount (zero_rows ! 2) = Some (Fin 0)"
proof -
  have h: "post_invoice initial_store 2024 10 zero_body (Some zero_items)
     = (fst (post_invoice initial_store 2024 10 zero_body (Some zero_items)),
        Success (Invoice_with_items zero_invoice zero_rows))"
    by (simp add: prod_eq_iff zero_post)
  have k: "1 < length zero_items" and k2: "2 < length zero_items"
    by (simp_all add: zero_items_def)
  have q: "parseFloat (fld (zero_items ! 1) ''quantity'') = Fin 0"
    by (simp add: zero_items_def fld_def parse_zero)
  have p: "parseFloat (fld (zero_items ! 1) ''unit_price'') = Fin 0"
    by (simp add: zero_items_def fld_def)
  have d: "parseFloat (fld (zero_items ! 1) ''discount'') = Fin 0"
    by (simp add: zero_items_def fld_def parse_zero)
  have a: "parseFloat (fld zero_body ''paid_amount'') = NaN"
    by (simp add: zero_body_def fld_def parse_letters)
  have q2: "parseFloat (fld (zero_items ! 2) ''quantity'') = Fin 0"
    by (simp add: zero_items_def fld_def parse_underflow)
  have d2: "parseFloat (fld (zero_items ! 2) ''discount'') = Fin 0"
    by (simp add: zero_items_def fld_def parse_minus_zero)
  note t1 = zero_quantity_stored_as_one[OF h initial_store_items k]
  note t2 = zero_quantity_stored_as_one[OF h initial_store_items k2]
  from t1 q p d a have first: "li_quantity (zero_rows ! 1) = Some (Fin 1)
     \<and> li_total (zero_rows ! 1)
         = bind_real (Some (js_sub (js_mul (Fin 1) (parsed_unit_price (zero_items ! 1)))
                                   (parsed_discount (zero_items ! 1))))
     \<and> li_unit_price (zero_rows ! 1) = Some (Fin 0)
     \<and> li_discount (zero_rows ! 1) = Some (Fin 0)
     \<and> i_paid_amount zero_invoice = Some (Fin 0)"
    by blast
  from t2 q2 d2 have second: "li_quantity (zero_rows ! 2) = Some (Fin 1)
     \<and> li_discount (zero_rows ! 2) = Some (Fin 0)"
    by blast
  from t2 q2 have "li_total (zero_rows ! 2)
      = bind_real (Some (js_sub (js_mul (Fin 1) (parsed_unit_price (zero_items ! 2)))
                                (parsed_discount (zero_items ! 2))))"
    by blast
  then have total2: "bind_real (Some (js_sub (js_mul (Fin 1) (parsed_unit_price (zero_items ! 2)))
                                (parsed_discount (zero_items ! 2)))) = Some (Fin 30)"
    by (simp add: zero_rows_def)
  from h initial_store_items k q p d a first k2 q2 d2 second total2 show ?thesis by blast
qed

subsection \<open>Status and payment updates\<close>

lemma find_map_update:
  assumes "\<And>x. P x \<Longrightarrow> P (g x)"
  shows "find P (map (\<lambda>x. if P x then g x else x) xs) = map_option g (find P xs)"
  using assms by (induction xs) auto

lemma invoice_updateStatus_get:
  assumes found: "invoice_getById s ref = Some iv"
    and b: "bindable st"
  shows "\<exists>s1. invoice_updateStatus s st p bal ref = Inr s1
     \<and> invoice_getById s1 ref
         = Some (iv\<lparr>i_status := bound st, i_paid_amount := bind_real p, i_balance := bind_real bal\<rparr>)"
proof -
  let ?g = "\<lambda>i. i\<lparr>i_status := bound st, i_paid_amount := bind_real p, i_balance := bind_real bal\<rparr>"
  have "find (\<lambda>i. i_ref i = ref) (map (\<lambda>i. if i_ref i = ref then ?g i else i) (invoices s))
          = map_option ?g (find (\<lambda>i. i_ref i = ref) (invoices s))"
    by (rule find_map_update) simp
  then show ?thesis
    using found b by (simp add: invoice_updateStatus_def invoice_getById_def)
qed

text \<open>
  C3. \<^verbatim>\<open>PATCH /api/invoices/:ref/status\<close> on a stored invoice, with a status string in the
  request, answers with the updated invoice, whose total is the stored one. With
  \<^verbatim>\<open>Paid\<close> the paid amount is the total and the balance 0, whatever paid amount the
  request or the row had; with \<^verbatim>\<open>Draft\<close> the paid amount is 0 and the balance the total;
  with any other status the balance is \<open>max(0, total - paid_amount)\<close> for the stored
  total, the paid amount being the request's when it has one and the stored one
  otherwise. The difference is that of doubles, rounded, and \<open>max(0, x)\<close> is
  \<open>at_least_zero x\<close>: a payment above the total leaves the balance 0.
\<close>

theorem patch_invoice_status_payment:
  assumes found: "invoice_getById s ref = Some iv"
    and tot: "real_value (i_total iv)"
    and st: "fld body ''status'' = JStr st" "st \<noteq> []"
    and run: "patch_invoice_status s ref body = (s', r)"
  shows "\<exists>iv'. invoice_getById s' ref = Some iv'
     \<and> r = Success (Invoice_with_items iv' (invoice_getItems s' ref))
     \<and> i_status iv' = JStr st
     \<and> i_total iv' = i_total iv
     \<and> (st = ''Paid'' \<longrightarrow> i_paid_amount iv' = i_total iv' \<and> i_balance iv' = Some (Fin 0))
     \<and> (st = ''Draft'' \<longrightarrow> i_paid_amount iv' = Some (Fin 0) \<and> i_balance iv' = i_total iv')
     \<and> (st \<noteq> ''Paid'' \<and> st \<noteq> ''Draft'' \<longrightarrow>
          i_paid_amount iv' = bind_real (spec_paid_amount body (i_paid_amount iv))
          \<and> i_balance iv'
              = bind_real (Some (spec_balance (to_number (i_total iv))
                                   (to_number (spec_paid_amount body (i_paid_amount iv))))))"
proof -
  let ?paid0 = "spec_paid_amount body (i_paid_amount iv)"
  let ?bal0 = "Some (spec_balance (to_number (i_total iv)) (to_number ?paid0))"
  let ?paid = "if st = ''Draft'' then Some (Fin 0) else if st = ''Paid'' then i_total iv else ?paid0"
  let ?bal = "if st = ''Draft'' then i_total iv else if st = ''Paid'' then Some (Fin 0) else ?bal0"
  have status: "js_or (fld body ''status'') (i_status iv) = JStr st"
    using st by (simp add: js_or_def)
  from invoice_updateStatus_get[OF found, of "JStr st" ?paid ?bal]
  obtain s1 where
    u: "invoice_updateStatus s (JStr st) ?paid ?bal ref = Inr s1" and
    g: "invoice_getById s1 ref
          = Some (iv\<lparr>i_status := JStr st, i_paid_amount := bind_real ?paid,
                     i_balance := bind_real ?bal\<rparr>)"
    by auto
  let ?iv' = "iv\<lparr>i_status := JStr st, i_paid_amount := bind_real ?paid, i_balance := bind_real ?bal\<rparr>"
  have ref: "i_ref iv = ref"
    using found by (auto simp: invoice_getById_def dest: find_Some_iff[THEN iffD1])
  have unfold: "patch_invoice_status s ref body
      = (case invoice_updateStatus s (JStr st) ?paid ?bal ref of
           Inl f \<Rightarrow> (s, thrown f)
         | Inr s1 \<Rightarrow>
             (case invoice_getById s1 ref of
                None \<Rightarrow> (s1, thrown TypeError)
              | Some updated \<Rightarrow>
                  (s1, Success (Invoice_with_items updated (invoice_getItems s1 (i_ref updated))))))"
  proof -
    have paid: "(if JStr st = JStr ''Draft'' then Some (Fin 0)
                 else if JStr st = JStr ''Paid'' then i_total iv
                 else if \<not> nullish (fld body ''paid_amount'')
                      then Some (parseFloat (fld body ''paid_amount'')) else i_paid_amount iv)
                = ?paid"
      by (simp add: spec_paid_amount_def)
    have bal: "(if JStr st = JStr ''Draft'' then i_total iv
                else if JStr st = JStr ''Paid'' then Some (Fin 0)
                else Some (math_max (Fin 0) (js_sub (to_number (i_total iv))
                       (to_number (if \<not> nullish (fld body ''paid_amount'')
                                   then Some (parseFloat (fld body ''paid_amount''))
                                   else i_paid_amount iv)))))
                = ?bal"
      by (simp add: spec_paid_amount_def spec_balance_def math_max_zero)
    show ?thesis
      unfolding patch_invoice_status_def Let_def found option.case status paid bal ..
  qed
  have res: "patch_invoice_status s ref body
               = (s1, Success (Invoice_with_items ?iv' (invoice_getItems s1 ref)))"
    unfolding unfold using u g ref by simp
  from res run have s': "s' = s1"
    and r: "r = Success (Invoice_with_items ?iv' (invoice_getItems s1 ref))"
    by simp_all
  have real: "bind_real (i_total iv) = i_total iv" using tot by (simp add: real_value_def)
  show ?thesis
  proof (intro exI[of _ "?iv'"] conjI)
    show "invoice_getById s' ref = Some ?iv'" using g s' by simp
    show "r = Success (Invoice_with_items ?iv' (invoice_getItems s' ref))" using r s' by simp
    show "i_status ?iv' = JStr st" by simp
    show "i_total ?iv' = i_total iv" by simp
    show "st = ''Paid'' \<longrightarrow> i_paid_amount ?iv' = i_total ?iv' \<and> i_balance ?iv' = Some (Fin 0)"
      by (simp add: real)
    show "st = ''Draft'' \<longrightarrow> i_paid_amount ?iv' = Some (Fin 0) \<and> i_balance ?iv' = i_total ?iv'"
      by (simp add: real)
  qed simp
qed

text \<open>
  The unpaid example invoice, updated with \<^verbatim>\<open>{status: 'Paid', paid_amount: 5}\<close>, with
  \<^verbatim>\<open>{status: 'Draft', paid_amount: 100}\<close>, with \<^verbatim>\<open>{status: 'Outstanding', paid_amount: 100}\<close>,
  with \<^verbatim>\<open>{status: 'Outstanding', paid_amount: 300}\<close>, which is more than the total of 240,
  and with \<^verbatim>\<open>{status: 'Outstanding', paid_amount: "0.1"}\<close>, where the balance is the double
  nearest to \<open>240 - 0.1\<close>, \<open>8440730864110797 / 2\<^bsup>45\<^esup>\<close>, which prints as \<^verbatim>\<open>239.9\<close>.
\<close>

theorem patch_invoice_status_payment_witness:
  "invoice_getById billed_store ''IN:01-2411-0001'' = Some (example_invoice 0 240)
   \<and> real_value (i_total (example_invoice 0 240))
   \<and> (\<exists>iv'. invoice_getById
               (fst (patch_invoice_status billed_store ''IN:01-2411-0001''
                      [(''status'', JStr ''Paid''), (''paid_amount'', JNum (Fin 5))]))
               ''IN:01-2411-0001'' = Some iv'
          \<and> i_status iv' = JStr ''Paid'' \<and> i_total iv' = Some (Fin 240)
          \<and> i_paid_amount iv' = Some (Fin 240) \<and> i_balance iv' = Some (Fin 0))
   \<and> (\<exists>iv'. invoice_getById
               (fst (patch_invoice_status billed_store ''IN:01-2411-0001''
                      [(''status'', JStr ''Draft''), (''paid_amount'', JNum (Fin 100))]))
               ''IN:01-2411-0001'' = Some iv'
          \<and> i_status iv' = JStr ''Draft'' \<and> i_total iv' = Some (Fin 240)
          \<and> i_paid_amount iv' = Some (Fin 0) \<and> i_balance iv' = Some (Fin 240))
   \<and> (\<exists>iv'. invoice_getById
               (fst (patch_invoice_status billed_store ''IN:01-2411-0001''
                      [(''status'', JStr ''Outstanding''), (''paid_amount'', JNum (Fin 100))]))
               ''IN:01-2411-0001'' = Some iv'
          \<and> i_status iv' = JStr ''Outstanding'' \<and> i_total iv' = Some (Fin 240)
          \<and> i_paid_amount iv' = Some (Fin 100) \<and> i_balance iv' = Some (Fin 140))
   \<and> (\<exists>iv'. invoice_getById
               (fst (patch_invoice_status billed_store ''IN:01-2411-0001''
                      [(''status'', JStr ''Outstanding''), (''paid_amount'', JNum (Fin 300))]))
               ''IN:01-2411-0001'' = Some iv'
          \<and> i_status iv' = JStr ''Outstanding'' \<and> i_total iv' = Some (Fin 240)
          \<and> i_paid_amount iv' = Some (Fin 300) \<and> i_balance iv' = Some (Fin 0))
   \<and> (\<exists>iv'. invoice_getById
               (fst (patch_invoice_status billed_store ''IN:01-2411-0001''
                      [(''status'', JStr ''Outstanding''), (''paid_amount'', JStr ''0.1'')]))
               ''IN:01-2411-0001'' = Some iv'
          \<and> i_status iv' = JStr ''Outstanding'' \<and> i_total iv' = Some (Fin 240)
          \<and> i_paid_amount iv' = Some (Fin (3602879701896397 / 2 ^ 55))
          \<and> i_balance iv' = Some (Fin (8440730864110797 / 2 ^ 45)))"
proof -
  let ?ref = "''IN:01-2411-0001''"
  let ?paid = "[(''status'', JStr ''Paid''), (''paid_amount'', JNum (Fin 5))]"
  let ?draft = "[(''status'', JStr ''Draft''), (''paid_amount'', JNum (Fin 100))]"
  let ?other = "[(''status'', JStr ''Outstanding''), (''paid_amount'', JNum (Fin 100))]"
  let ?over = "[(''status'', JStr ''Outstanding''), (''paid_amount'', JNum (Fin 300))]"
  let ?tenth = "[(''status'', JStr ''Outstanding''), (''paid_amount'', JStr ''0.1'')]"
  have found: "invoice_getById billed_store ?ref = Some (example_invoice 0 240)"
    by (simp add: billed_store_def invoice_getById_def example_invoice_def)
  have tot: "real_value (i_total (example_invoice 0 240))"
    by (simp add: real_value_def example_invoice_def)
  have t: "i_total (example_invoice 0 240) = Some (Fin 240)"
    by (simp add: example_invoice_def)
  have run: "patch_invoice_status billed_store ?ref b
               = (fst (patch_invoice_status billed_store ?ref b),
                  snd (patch_invoice_status billed_store ?ref b))" for b
    by simp
  have "fld ?paid ''status'' = JStr ''Paid''" "''Paid'' \<noteq> []" by (simp_all add: fld_def)
  from patch_invoice_status_payment[OF found tot this run]
  have a: "\<exists>iv'. invoice_getById (fst (patch_invoice_status billed_store ?ref ?paid)) ?ref = Some iv'
          \<and> i_status iv' = JStr ''Paid'' \<and> i_total iv' = Some (Fin 240)
          \<and> i_paid_amount iv' = Some (Fin 240) \<and> i_balance iv' = Some (Fin 0)"
    by (auto simp: t)
  have "fld ?draft ''status'' = JStr ''Draft''" "''Draft'' \<noteq> []" by (simp_all add: fld_def)
  from patch_invoice_status_payment[OF found tot this run]
  have b: "\<exists>iv'. invoice_getById (fst (patch_invoice_status billed_store ?ref ?draft)) ?ref = Some iv'
          \<and> i_status iv' = JStr ''Draft'' \<and> i_total iv' = Some (Fin 240)
          \<and> i_paid_amount iv' = Some (Fin 0) \<and> i_balance iv' = Some (Fin 240)"
    by (auto simp: t)
  have "fld ?other ''status'' = JStr ''Outstanding''" "''Outstanding'' \<noteq> []"
    by (simp_all add: fld_def)
  from patch_invoice_status_payment[OF found tot this run]
  have c: "\<exists>iv'. invoice_getById (fst (patch_invoice_status billed_store ?ref ?other)) ?ref = Some iv'
          \<and> i_status iv' = JStr ''Outstanding'' \<and> i_total iv' = Some (Fin 240)
          \<and> i_paid_amount iv' = Some (Fin 100) \<and> i_balance iv' = Some (Fin 140)"
    by (auto simp: t spec_paid_amount_def spec_balance_def fld_def js_sub_def example_invoice_def)
  have "fld ?over ''status'' = JStr ''Outstanding''" "''Outstanding'' \<noteq> []"
    by (simp_all add: fld_def)
  from patch_invoice_status_payment[OF found tot this run]
  have d: "\<exists>iv'. invoice_getById (fst (patch_invoice_status billed_store ?ref ?over)) ?ref = Some iv'
          \<and> i_status iv' = JStr ''Outstanding'' \<and> i_total iv' = Some (Fin 240)
          \<and> i_paid_amount iv' = Some (Fin 300) \<and> i_balance iv' = Some (Fin 0)"
    by (auto simp: t spec_paid_amount_def spec_balance_def fld_def js_sub_def example_invoice_def)
  have "fld ?tenth ''status'' = JStr ''Outstanding''" "''Outstanding'' \<noteq> []"
    by (simp_all add: fld_def)
  from patch_invoice_status_payment[OF found tot this run]
  have e: "\<exists>iv'. invoice_getById (fst (patch_invoice_status billed_store ?ref ?tenth)) ?ref = Some iv'
          \<and> i_status iv' = JStr ''Outstanding'' \<and> i_total iv' = Some (Fin 240)
          \<and> i_paid_amount iv' = Some (Fin (3602879701896397 / 2 ^ 55))
          \<and> i_balance iv' = Some (Fin (8440730864110797 / 2 ^ 45))"
    by (auto simp: t spec_paid_amount_def spec_balance_def fld_def js_sub_def example_invoice_def
          parse_tenth eval_double)
  from found tot a b c d e show ?thesis by (intro conjI)
qed

subsection \<open>An invoice created as paid\<close>

text \<open>
  C2. The example request sent with \<^verbatim>\<open>status: 'Paid'\<close> and no paid amount: the invoice is
  stored and returned with status \<^verbatim>\<open>Paid\<close>, total 240, paid amount 0 and balance 240.
\<close>

theorem post_invoice_paid_status_unpaid:
  "snd (post_invoice initial_store 2024 10 paid_status_body (Some example_items))
     = Success (Invoice_with_items ((example_invoice 0 240)\<lparr>i_status := JStr ''Paid''\<rparr>) example_rows)
   \<and> invoice_getById (fst (post_invoice initial_store 2024 10 paid_status_body (Some example_items)))
        ''IN:01-2411-0001''
     = Some ((example_invoice 0 240)\<lparr>i_status := JStr ''Paid''\<rparr>)"
  by (simp add: eval_invoice eval_strings eval_stores eval_parse
        paid_status_body_def example_items_def example_invoice_def example_rows_def)

subsection \<open>Unknown identifiers\<close>

text \<open>The handlers that look the row up first answer 404 when no row matches.\<close>

lemma find_None_all: "find P xs = None \<longleftrightarrow> (\<forall>x\<in>set xs. \<not> P x)"
  by (induction xs) auto

lemma not_found_paths:
  assumes "\<forall>p\<in>set (patients s). p_id p \<noteq> x \<and> p_patient_id p \<noteq> Some x"
    and "\<forall>c\<in>set (checkins s). c_id c \<noteq> x"
    and "\<forall>i\<in>set (invoices s). i_ref i \<noteq> x"
  shows "get_patient s x = (s, Failure 404 (Msg ''Patient not found''))"
    and "put_patient s x body = (s, Failure 404 (Msg ''Patient not found''))"
    and "get_checkin s x = (s, Failure 404 (Msg ''Check-in not found''))"
    and "get_invoice s x = (s, Failure 404 (Msg ''Invoice not found''))"
    and "patch_invoice_status s x body = (s, Failure 404 (Msg ''Invoice not found''))"
proof -
  have p: "find (patient_matches (JStr x) (JStr x)) (patients s) = None"
    using assms(1) by (auto simp: find_None_all patient_matches_def split: option.splits)
  have c: "find (\<lambda>c. c_id c = x) (checkins s) = None"
    using assms(2) by (simp add: find_None_all)
  have i: "find (\<lambda>i. i_ref i = x) (invoices s) = None"
    using assms(3) by (simp add: find_None_all)
  show "get_patient s x = (s, Failure 404 (Msg ''Patient not found''))"
    by (simp add: get_patient_def patient_getById_def p)
  show "put_patient s x body = (s, Failure 404 (Msg ''Patient not found''))"
    by (simp add: put_patient_def patient_getById_def p)
  show "get_checkin s x = (s, Failure 404 (Msg ''Check-in not found''))"
    by (simp add: get_checkin_def checkin_getById_def c)
  show "get_invoice s x = (s, Failure 404 (Msg ''Invoice not found''))"
    by (simp add: get_invoice_def invoice_getById_def i)
  show "patch_invoice_status s x body = (s, Failure 404 (Msg ''Invoice not found''))"
    by (simp add: patch_invoice_status_def invoice_getById_def i)
qed

text \<open>
  \<^verbatim>\<open>DELETE /api/patients/:id\<close> passes one value to a statement with two placeholders,
  so the lookup throws whatever the store holds.
\<close>

lemma delete_patient_throws: "delete_patient s pid = (s, Failure 500 (Thrown RangeError))"
  by (simp add: delete_patient_def patient_getById_def thrown_def)

text \<open>
  C4. On the initial store, which holds no rows, the identifier \<^verbatim>\<open>nope\<close> matches
  nothing. Deleting that check-in or that invoice answers success, setting the status of
  that check-in answers success without data, and deleting that patient answers 500.
\<close>

theorem unknown_id_answers:
  "delete_checkin initial_store ''nope'' = (initial_store, Success (Deleted ''nope''))
   \<and> delete_invoice initial_store ''nope'' = (initial_store, Success (Deleted ''nope''))
   \<and> patch_checkin_status initial_store ''nope'' [(''status'', JStr ''done'')]
       = (initial_store, Success Undefined)
   \<and> delete_patient initial_store ''nope'' = (initial_store, Failure 500 (Thrown RangeError))"
  by (simp add: delete_checkin_def checkin_delete_def delete_invoice_def invoice_delete_def
        patch_checkin_status_def checkin_updateStatus_def checkin_getById_def fld_def
        delete_patient_throws eval_stores)

subsection \<open>Deleting a patient\<close>

text \<open>
  What the statement \<^verbatim>\<open>patientQueries.delete\<close> does to a store that holds the patient: the
  patient and the check-ins that reference it go, the invoices stay with the reference
  set to \<^verbatim>\<open>NULL\<close>, and no line item is touched.
\<close>

lemma patient_delete_cascade:
  assumes "pid \<in> set (map p_id (patients s))"
  shows "pid \<notin> set (map p_id (patients (patient_delete s pid)))"
    and "\<forall>c\<in>set (checkins (patient_delete s pid)). c_patient_id c \<noteq> JStr pid"
    and "map i_ref (invoices (patient_delete s pid)) = map i_ref (invoices s)"
    and "\<forall>i\<in>set (invoices (patient_delete s pid)). i_patient_id i \<noteq> JStr pid"
    and "invoice_items (patient_delete s pid) = invoice_items s"
  using assms by (auto simp: patient_delete_def comp_def)

text \<open>
  C7. \<^verbatim>\<open>DELETE /api/patients/PaCPC-10000\<close> on the store that holds this patient, a
  check-in and an invoice of it: the answer is 500 and the store is as before, so the
  patient and its check-in are still there and the invoice still references the patient.
\<close>

theorem delete_patient_keeps_everything:
  "delete_patient clinic_store ''PaCPC-10000'' = (clinic_store, Failure 500 (Thrown RangeError))
   \<and> map p_id (patients clinic_store) = [''PaCPC-10000'']
   \<and> map c_patient_id (checkins clinic_store) = [JStr ''PaCPC-10000'']
   \<and> map i_patient_id (invoices clinic_store) = [JStr ''PaCPC-10000'']"
  by (simp add: delete_patient_throws clinic_store_def rex_def rex_visit_def example_invoice_def)

subsection \<open>Creating a check-in or an invoice for a stored patient\<close>

text \<open>
  The snapshot lookup of both handlers passes one value to the statement with two
  placeholders: a truthy \<^verbatim>\<open>patient_id\<close> makes the request fail before anything is written.
\<close>

lemma checkin_names_throws:
  "truthy (fld body ''patient_id'') \<Longrightarrow>
     checkin_names s body
       = Inl (if bindable (fld body ''patient_id'') then RangeError else TypeError)"
  by (simp add: checkin_names_def patient_getById_def Let_def)

lemma invoice_names_throws:
  "truthy (fld body ''patient_id'') \<Longrightarrow>
     invoice_names s body
       = Inl (if bindable (fld body ''patient_id'') then RangeError else TypeError)"
  by (simp add: invoice_names_def patient_getById_def Let_def)

text \<open>
  C8. On the store that holds the patient \<^verbatim>\<open>PaCPC-10000\<close>, a check-in request and an
  invoice request that name this patient are answered with 500 and leave the store as it
  was: no record is created.
\<close>

theorem create_for_stored_patient_fails:
  "post_checkin clinic_store 1730700000000 ''a1b2'' visit_request
     = (clinic_store, Failure 500 (Thrown RangeError))
   \<and> post_invoice clinic_store 2024 10 bill_request (Some example_items)
     = (clinic_store, Failure 500 (Thrown RangeError))"
  by (simp add: post_checkin_def post_invoice_def checkin_names_throws invoice_names_throws
        visit_request_def bill_request_def example_items_def fld_def eval_trim
        thrown_def)

text \<open>Updating a patient writes the \<^verbatim>\<open>patients\<close> table only.\<close>

lemma put_patient_frame:
  "checkins (fst (put_patient s pid body)) = checkins s
   \<and> invoices (fst (put_patient s pid body)) = invoices s
   \<and> invoice_items (fst (put_patient s pid body)) = invoice_items s
   \<and> counters (fst (put_patient s pid body)) = counters s"
  by (auto simp: put_patient_def patient_update_def patient_getById_def
           split: sum.splits option.splits if_splits)

subsection \<open>Rejected creations\<close>

text \<open>
  What the validation of the three create handlers does with a request whose required
  field is blank or missing: nothing is written, and the answer is 400 unless the text
  field that is validated first is a number or a boolean, on which \<^verbatim>\<open>?.trim()\<close> throws.
\<close>

lemma blank_cases: "blank v \<longleftrightarrow> v = JUndef \<or> v = JNull \<or> (\<exists>t. v = JStr t \<and> js_trim t = [])"
  by (cases v) (auto simp: blank_def)

lemma not_text_cases: "not_text v \<longleftrightarrow> (\<exists>b. v = JBool b) \<or> (\<exists>n. v = JNum n)"
  by (cases v) (auto simp: not_text_def)

lemma opt_trim_Inl: "opt_trim v = Inl f \<Longrightarrow> f = TypeError"
  by (cases v) auto

lemma post_patient_rejects:
  assumes "blank (fld body ''name'') \<or> blank (fld body ''owner_name'')"
  shows "fst (post_patient s body) = s"
    and "status_of (snd (post_patient s body)) = (if not_text (fld body ''name'') then 500 else 400)"
  using assms
  by (auto simp: post_patient_def blank_def not_text_def thrown_def
           split: sum.splits option.splits dest: opt_trim_Inl)

lemma post_checkin_rejects:
  assumes "blank (fld body ''doctor'') \<or> \<not> truthy (fld body ''date'')"
  shows "fst (post_checkin s now rnd body) = s"
    and "status_of (snd (post_checkin s now rnd body))
           = (if not_text (fld body ''doctor'') then 500 else 400)"
  using assms
  by (auto simp: post_checkin_def blank_def not_text_def thrown_def
           split: sum.splits option.splits dest: opt_trim_Inl)

lemma post_invoice_rejects:
  assumes "blank (fld body ''owner_name'') \<or> \<not> truthy (fld body ''date'') \<or> no_items body items"
  shows "fst (post_invoice s year month body items) = s"
    and "status_of (snd (post_invoice s year month body items))
           = (if not_text (fld body ''owner_name'') then 500 else 400)"
  using assms
  by (auto simp: post_invoice_def blank_def not_text_def no_items_def thrown_def
           split: sum.splits option.splits dest: opt_trim_Inl)

text \<open>
  White space outside ASCII is blank as well: a name that is a no-break space, or a line
  separator, a space and a byte order mark, is rejected with 400, and \<^verbatim>\<open>trim\<close> strips a
  no-break space and an ideographic space around a name.
\<close>

lemma unicode_blank:
  "blank (JStr [CHR 0xC2, CHR 0xA0])
   \<and> blank (JStr [CHR 0xE2, CHR 0x80, CHR 0xA8, CHR '' '', CHR 0xEF, CHR 0xBB, CHR 0xBF])
   \<and> js_trim ([CHR 0xC2, CHR 0xA0] @ ''Rex'' @ [CHR 0xE3, CHR 0x80, CHR 0x80]) = ''Rex''
   \<and> post_patient initial_store [(''name'', JStr [CHR 0xC2, CHR 0xA0]), (''owner_name'', JStr ''Asha'')]
       = (initial_store, Failure 400 (Msg ''Pet name is required''))"
  by (simp add: blank_def post_patient_def fld_def eval_trim)

text \<open>
  A text in place of the items of an invoice request: it has a length, and the answer is
  500.
\<close>

lemma post_invoice_text_items:
  "post_invoice initial_store 2024 10 ((''items'', JStr ''abc'') # example_body 0) None
     = (initial_store, Failure 500 (Thrown TypeError))"
  by (simp add: post_invoice_def invoice_names_def no_length_def example_body_def fld_def
        eval_trim js_or_def thrown_def)

text \<open>
  C5. The request \<^verbatim>\<open>{name: 5, owner_name: ''}\<close> to \<^verbatim>\<open>POST /api/patients\<close> has a blank
  owner name. It writes nothing, and it is answered with 500, not 400:
  \<^verbatim>\<open>name?.trim()\<close> throws a \<open>TypeError\<close> on the number before the owner name is looked at,
  and the \<^verbatim>\<open>catch\<close> of the handler answers. The same request with a text as the name is
  answered with 400.
\<close>

theorem blank_owner_answered_500:
  "blank (fld numeric_name_request ''owner_name'')
   \<and> post_patient initial_store numeric_name_request
       = (initial_store, Failure 500 (Thrown TypeError))
   \<and> post_patient initial_store [(''name'', JStr ''Rex''), (''owner_name'', JStr [])]
       = (initial_store, Failure 400 (Msg ''Owner name is required''))"
  by (simp add: blank_def numeric_name_request_def fld_def post_patient_def thrown_def
        eval_trim)

subsection \<open>Decimal digits\<close>

lemma digit_val_digit_char: "d < 10 \<Longrightarrow> digit_val (digit_char d) = d"
proof -
  assume "d < 10"
  then have "d = 0 \<or> d = 1 \<or> d = 2 \<or> d = 3 \<or> d = 4 \<or> d = 5 \<or> d = 6 \<or> d = 7 \<or> d = 8 \<or> d = 9"
    by arith
  then show ?thesis
    by (elim disjE) (simp_all add: digit_val_def digit_char_def)
qed

lemma digits_val_snoc: "digits_val (ds @ [c]) = 10 * digits_val ds + digit_val c"
  by (simp add: digits_val_def)

lemma digits_val_show_nat: "digits_val (show_nat n) = n"
proof (induction n rule: show_nat.induct)
  case (1 n)
  show ?case
  proof (cases "n < 10")
    case True
    then show ?thesis by (simp add: show_nat_digit digits_val_def digit_val_digit_char)
  next
    case False
    then have "digits_val (show_nat (n div 10)) = n div 10" using 1 by simp
    with False show ?thesis
      by (simp add: show_nat_step digits_val_snoc digit_val_digit_char)
  qed
qed

lemma foldl_zero_digits:
  "foldl (\<lambda>acc c. 10 * acc + digit_val c) 0 (replicate k (CHR ''0'')) = 0"
  by (induction k) (simp_all add: digit_val_def)

lemma digits_val_padStart0: "digits_val (padStart0 k ds) = digits_val ds"
  by (simp add: digits_val_def padStart0_def foldl_zero_digits)

text \<open>Distinct counter values give distinct patient ids.\<close>

lemma patient_id_of_inj:
  assumes "patient_id_of a = patient_id_of b" and "0 \<le> a" and "0 \<le> b"
  shows "a = b"
proof -
  from assms have "padStart0 5 (show_nat (nat a)) = padStart0 5 (show_nat (nat b))"
    by (simp add: patient_id_of_def show_int_def)
  then have "digits_val (padStart0 5 (show_nat (nat a))) = digits_val (padStart0 5 (show_nat (nat b)))"
    by simp
  then have "nat a = nat b" by (simp add: digits_val_padStart0 digits_val_show_nat)
  with assms show ?thesis by simp
qed

subsection \<open>Counters and patient ids\<close>

lemma nextCounter_seeded:
  "counters s key = Some v \<Longrightarrow>
     nextCounter s key = Inr (v, s\<lparr>counters := (counters s)(key \<mapsto> v + 1)\<rparr>)"
  by (simp add: nextCounter_def)

text \<open>
  One creation with a valid request, a seeded counter and an unused id: the row is
  inserted under the id of the counter value and the counter moves on by one. The answer is
  500 all the same, because the row is read back with one value for two placeholders.
\<close>

lemma post_patient_creates:
  assumes c: "counters s ''patient'' = Some c"
    and v: "creatable body"
    and fresh: "patient_id_of c \<notin> set (map p_id (patients s))"
  shows "\<exists>row. fst (post_patient s body)
                 = s\<lparr>counters := (counters s)(''patient'' \<mapsto> c + 1),
                     patients := patients s @ [row]\<rparr>
              \<and> p_id row = patient_id_of c"
    and "snd (post_patient s body) = Failure 500 (Thrown RangeError)"
proof -
  from v obtain n ow where n: "opt_trim (fld body ''name'') = Inr (Some n)" "n \<noteq> []"
    and ow: "opt_trim (fld body ''owner_name'') = Inr (Some ow)" "ow \<noteq> []"
    and opt: "list_all (\<lambda>k. fld body k \<noteq> JBool True) optional_patient_fields"
    by (auto simp: creatable_def)
  let ?s1 = "s\<lparr>counters := (counters s)(''patient'' \<mapsto> c + 1)\<rparr>"
  let ?p = "new_patient (patient_id_of c) n ow body"
  have g: "generatePatientId s = Inr (patient_id_of c, ?s1)"
    by (simp add: generatePatientId_def nextCounter_seeded[OF c])
  have b: "bindable (js_or v JNull)" if "v \<noteq> JBool True" for v
    using that by (cases v) (auto simp: js_or_def)
  have texts: "list_all bindable (patient_texts ?p)"
    using opt by (simp add: patient_texts_def new_patient_def optional_patient_fields_def b)
  have ins: "patient_insert ?s1 ?p
               = Inr (?s1\<lparr>patients := patients s @ [(patient_bound ?p)\<lparr>p_patient_id := None\<rparr>]\<rparr>)"
    using fresh texts by (simp add: patient_insert_def) (simp add: new_patient_def)
  have run: "post_patient s body
      = (?s1\<lparr>patients := patients s @ [(patient_bound ?p)\<lparr>p_patient_id := None\<rparr>]\<rparr>,
         Failure 500 (Thrown RangeError))"
    using n ow by (simp add: post_patient_def g ins patient_getById_def thrown_def)
  have id: "p_id ((patient_bound ?p)\<lparr>p_patient_id := None\<rparr>) = patient_id_of c"
    by (simp add: patient_bound_def new_patient_def)
  show "\<exists>row. fst (post_patient s body)
                 = s\<lparr>counters := (counters s)(''patient'' \<mapsto> c + 1),
                     patients := patients s @ [row]\<rparr>
              \<and> p_id row = patient_id_of c"
    using id by (intro exI[of _ "(patient_bound ?p)\<lparr>p_patient_id := None\<rparr>"]) (simp add: run)
  show "snd (post_patient s body) = Failure 500 (Thrown RangeError)"
    by (simp add: run)
qed

lemma post_patients_ids:
  assumes "counters s ''patient'' = Some c" and "0 \<le> c"
    and "list_all creatable bodies"
    and "\<forall>k<length bodies. patient_id_of (c + int k) \<notin> set (map p_id (patients s))"
  shows "map p_id (patients (post_patients s bodies))
           = map p_id (patients s) @ map (\<lambda>k. patient_id_of (c + int k)) [0..<length bodies]
       \<and> counters (post_patients s bodies) ''patient'' = Some (c + int (length bodies))"
  using assms
proof (induction bodies arbitrary: s c)
  case Nil
  then show ?case by simp
next
  case (Cons body bodies)
  from Cons.prems have fresh0: "patient_id_of c \<notin> set (map p_id (patients s))"
    by fastforce
  from Cons.prems have v: "creatable body" by simp
  from post_patient_creates(1)[OF Cons.prems(1) v fresh0]
  obtain row where s1: "fst (post_patient s body)
                 = s\<lparr>counters := (counters s)(''patient'' \<mapsto> c + 1),
                     patients := patients s @ [row]\<rparr>"
    and row: "p_id row = patient_id_of c"
    by blast
  let ?s1 = "fst (post_patient s body)"
  have c1: "counters ?s1 ''patient'' = Some (c + 1)" by (simp add: s1)
  have fresh1: "\<forall>k<length bodies. patient_id_of (c + 1 + int k) \<notin> set (map p_id (patients ?s1))"
  proof (intro allI impI)
    fix k assume k: "k < length bodies"
    have e: "c + int (Suc k) = c + 1 + int k" by simp
    from Cons.prems(4) k have "patient_id_of (c + int (Suc k)) \<notin> set (map p_id (patients s))"
      by (metis Suc_less_eq length_Cons)
    then have a: "patient_id_of (c + 1 + int k) \<notin> set (map p_id (patients s))"
      unfolding e .
    have b: "patient_id_of (c + 1 + int k) \<noteq> patient_id_of c"
      using patient_id_of_inj[of "c + 1 + int k" c] Cons.prems(2) by auto
    have "set (map p_id (patients ?s1)) = insert (patient_id_of c) (set (map p_id (patients s)))"
      by (simp add: s1 row)
    with a b show "patient_id_of (c + 1 + int k) \<notin> set (map p_id (patients ?s1))"
      by blast
  qed
  from Cons.prems have rest: "list_all creatable bodies" and c0: "0 \<le> c + 1" by simp_all
  note IH = Cons.IH[OF c1 c0 rest fresh1]
  have shift: "map (\<lambda>k. patient_id_of (c + int k)) [0..<Suc (length bodies)]
      = patient_id_of c # map (\<lambda>k. patient_id_of (c + 1 + int k)) [0..<length bodies]"
    by (simp add: upt_conv_Cons map_Suc_upt[symmetric] add.assoc del: upt_Suc)
  from IH show ?case by (simp add: shift s1 row del: upt_Suc)
qed

lemma new_ids_distinct:
  assumes "0 \<le> c"
  shows "distinct (map (\<lambda>k. patient_id_of (c + int k)) [0..<n])"
proof -
  have "inj_on (\<lambda>k. patient_id_of (c + int k)) (set [0..<n])"
    using assms by (intro inj_onI) (auto dest!: patient_id_of_inj)
  then show ?thesis by (simp add: distinct_map)
qed

text \<open>
  C6. \<^verbatim>\<open>nextCounter(key)\<close> on a seeded key returns the stored value and leaves the stored
  value larger by one. With the \<^verbatim>\<open>patient\<close> counter at 10000, a sequence of valid patient
  creations whose ids are not taken yet appends, in order, rows with the ids
  \<^verbatim>\<open>'PaCPC-'\<close> followed by \<open>10000 + k\<close> padded to five digits (\<open>k = 0, 1, \<dots>\<close>); these ids are
  pairwise distinct, and the counter ends at 10000 plus the number of creations.
\<close>

theorem sequential_patient_ids:
  assumes key: "counters s key = Some v"
    and seeded: "counters s ''patient'' = Some 10000"
    and valid: "list_all creatable bodies"
    and fresh: "\<forall>k<length bodies. patient_id_of (10000 + int k) \<notin> set (map p_id (patients s))"
  shows "nextCounter s key = Inr (v, s\<lparr>counters := (counters s)(key \<mapsto> v + 1)\<rparr>)
     \<and> map p_id (patients (post_patients s bodies))
         = map p_id (patients s)
           @ map (\<lambda>k. ''PaCPC-'' @ padStart0 5 (show_int (10000 + int k))) [0..<length bodies]
     \<and> distinct (map (\<lambda>k. ''PaCPC-'' @ padStart0 5 (show_int (10000 + int k))) [0..<length bodies])
     \<and> counters (post_patients s bodies) ''patient'' = Some (10000 + int (length bodies))"
proof -
  have ids: "(\<lambda>k. ''PaCPC-'' @ padStart0 5 (show_int (10000 + int k)))
               = (\<lambda>k. patient_id_of (10000 + int k))"
    by (simp add: patient_id_of_def)
  have n: "nextCounter s key = Inr (v, s\<lparr>counters := (counters s)(key \<mapsto> v + 1)\<rparr>)"
    using key by (rule nextCounter_seeded)
  have d: "distinct (map (\<lambda>k. patient_id_of (10000 + int k)) [0..<length bodies])"
    by (rule new_ids_distinct) simp
  from post_patients_ids[OF seeded _ valid fresh] n d show ?thesis
    unfolding ids by simp
qed

text \<open>Two creations on the initial store receive \<^verbatim>\<open>PaCPC-10000\<close> and \<^verbatim>\<open>PaCPC-10001\<close>.\<close>

theorem sequential_patient_ids_witness:
  "counters initial_store ''invoice'' = Some 1
   \<and> counters initial_store ''patient'' = Some 10000
   \<and> patients initial_store = []
   \<and> nextCounter initial_store ''invoice''
       = Inr (1, initial_store\<lparr>counters := (counters initial_store)(''invoice'' \<mapsto> 2)\<rparr>)
   \<and> map p_id (patients (post_patients initial_store [rex_request, mia_request]))
       = [''PaCPC-10000'', ''PaCPC-10001'']
   \<and> counters (post_patients initial_store [rex_request, mia_request]) ''patient'' = Some 10002"
proof -
  have key: "counters initial_store ''invoice'' = Some 1"
    and seeded: "counters initial_store ''patient'' = Some 10000"
    by (simp_all add: eval_stores)
  have valid: "list_all creatable [rex_request, mia_request]"
    by (simp add: creatable_def rex_request_def mia_request_def optional_patient_fields_def
          fld_def eval_trim)
  have fresh: "\<forall>k<length [rex_request, mia_request].
         patient_id_of (10000 + int k) \<notin> set (map p_id (patients initial_store))"
    by (simp add: eval_stores)
  note t = sequential_patient_ids[OF key seeded valid fresh]
  have two: "[0..<length [rex_request, mia_request]] = [0, Suc 0]"
    by (simp add: upt_rec)
  from t have a: "nextCounter initial_store ''invoice''
       = Inr (1, initial_store\<lparr>counters := (counters initial_store)(''invoice'' \<mapsto> 2)\<rparr>)"
    by simp
  from t have "map p_id (patients (post_patients initial_store [rex_request, mia_request]))
       = map p_id (patients initial_store)
           @ map (\<lambda>k. ''PaCPC-'' @ padStart0 5 (show_int (10000 + int k)))
                 [0..<length [rex_request, mia_request]]"
    by blast
  then have b: "map p_id (patients (post_patients initial_store [rex_request, mia_request]))
       = [''PaCPC-10000'', ''PaCPC-10001'']"
    unfolding two by (simp add: eval_stores eval_strings)
  from t have c: "counters (post_patients initial_store [rex_request, mia_request]) ''patient''
       = Some 10002"
    by simp
  have none: "patients initial_store = []" by (simp add: eval_stores)
  from key seeded none a b c show ?thesis by (intro conjI)
qed

subsection \<open>Partial updates of a patient\<close>

lemma find_map_same:
  assumes "\<And>x. P (f x) = P x"
  shows "find P (map f xs) = map_option f (find P xs)"
  using assms by (induction xs) auto

lemma filter_map_others:
  assumes "\<And>x. Q (f x) = Q x" and "\<And>x. Q x \<Longrightarrow> f x = x"
  shows "filter Q (map f xs) = filter Q xs"
  using assms by (induction xs) auto

lemma patient_matches_set [simp]:
  "patient_matches a b (patient_set v r) = patient_matches a b r"
  by (simp add: patient_matches_def patient_set_def)

lemma column_value_bound: "column_value v \<Longrightarrow> bound v = v"
  by (simp add: column_value_def)

text \<open>
  The row that \<^verbatim>\<open>PUT /api/patients/:id\<close> writes for a stored row \<open>p\<close>: a field the request
  does not have keeps the value of \<open>p\<close>.
\<close>

lemma patient_set_absent:
  assumes ok: "patient_row_ok p" and absent: "map_of body k = None"
  shows "patient_field k (patient_set (updated_patient pid p body) p) = patient_field k p"
proof -
  have u: "fld body k = JUndef" using absent by (simp add: fld_def)
  from ok have b: "bound (p_name p) = p_name p" "bound (p_type p) = p_type p"
    "bound (p_breed p) = p_breed p" "bound (p_colour p) = p_colour p"
    "bound (p_age p) = p_age p" "bound (p_gender p) = p_gender p"
    "bound (p_owner_name p) = p_owner_name p" "bound (p_phone p) = p_phone p"
    "bound (p_email p) = p_email p" "bound (p_address p) = p_address p"
    "bind_real (p_weight p) = p_weight p"
    by (simp_all add: patient_row_ok_def patient_texts_def column_value_bound real_value_def)
  consider "k = ''name''" | "k = ''type''" | "k = ''breed''" | "k = ''colour''" | "k = ''age''"
    | "k = ''gender''" | "k = ''weight''" | "k = ''owner_name''" | "k = ''phone''"
    | "k = ''email''" | "k = ''address''"
    | "k \<notin> set [''name'', ''type'', ''breed'', ''colour'', ''age'', ''gender'', ''weight'',
                 ''owner_name'', ''phone'', ''email'', ''address'']"
    by auto
  then show ?thesis
  proof cases
    case 12
    then show ?thesis by (simp add: patient_field_def)
  qed (use u b in \<open>simp_all add: patient_field_def patient_set_def updated_patient_def
         js_or_def js_coalesce_def\<close>)
qed

text \<open>
  C9. For a stored patient that the lookup of \<^verbatim>\<open>:id\<close> finds under this id,
  \<^verbatim>\<open>PUT /api/patients/:id\<close> leaves a store from which \<^verbatim>\<open>GET /api/patients/:id\<close> returns a
  row that has, for every field absent from the request body, the value the row had
  before; the rows of the other patients are as before.
\<close>

theorem put_patient_keeps_absent_fields:
  assumes found: "patient_getById s [JStr pid, JStr pid] = Inr (Some p)"
    and idp: "p_id p = pid"
    and ok: "patient_row_ok p"
  shows "\<exists>p'. get_patient (fst (put_patient s pid body)) pid
                = (fst (put_patient s pid body), Success (Patient_row p'))
     \<and> (\<forall>k. map_of body k = None \<longrightarrow> patient_field k p' = patient_field k p)
     \<and> filter (\<lambda>q. p_id q \<noteq> pid) (patients (fst (put_patient s pid body)))
         = filter (\<lambda>q. p_id q \<noteq> pid) (patients s)"
proof -
  let ?v = "updated_patient pid p body"
  have f: "find (patient_matches (JStr pid) (JStr pid)) (patients s) = Some p"
    using found by (simp add: patient_getById_def)
  have vid: "p_id ?v = pid" by (simp add: updated_patient_def)
  show ?thesis
  proof (cases "patient_update s ?v")
    case (Inl e)
    then have s': "fst (put_patient s pid body) = s"
      by (simp add: put_patient_def found)
    have "get_patient s pid = (s, Success (Patient_row p))"
      by (simp add: get_patient_def found)
    then show ?thesis unfolding s' by simp
  next
    case (Inr s1)
    then have s1: "s1 = s\<lparr>patients := map (\<lambda>r. if p_id r = pid then patient_set ?v r else r)
                                           (patients s)\<rparr>"
      by (auto simp: patient_update_def vid split: if_splits)
    from Inr have s': "fst (put_patient s pid body) = s1"
      by (simp add: put_patient_def patient_getById_def f)
    let ?f = "\<lambda>r. if p_id r = pid then patient_set ?v r else r"
    have "find (patient_matches (JStr pid) (JStr pid)) (map ?f (patients s))
            = map_option ?f (find (patient_matches (JStr pid) (JStr pid)) (patients s))"
      by (rule find_map_same) simp
    then have g: "get_patient s1 pid = (s1, Success (Patient_row (patient_set ?v p)))"
      by (simp add: get_patient_def patient_getById_def s1 f idp)
    have others: "filter (\<lambda>q. p_id q \<noteq> pid) (patients s1) = filter (\<lambda>q. p_id q \<noteq> pid) (patients s)"
      unfolding s1 by (simp, rule filter_map_others) (simp_all add: patient_set_def)
    show ?thesis
      unfolding s'
      using g others patient_set_absent[OF ok, of body _ pid]
      by (intro exI[of _ "patient_set ?v p"]) simp
  qed
qed

text \<open>
  The round trip on the initial store: the patient \<open>rex\<close> is created, its phone and
  weight are updated, and the fetched row still has the name, type, breed, age and owner
  name it was created with.
\<close>

theorem put_patient_keeps_absent_fields_witness:
  "patient_getById (fst (post_patient initial_store rex_request))
       [JStr ''PaCPC-10000'', JStr ''PaCPC-10000''] = Inr (Some rex)
   \<and> p_id rex = ''PaCPC-10000''
   \<and> patient_row_ok rex
   \<and> (\<exists>p'. get_patient (fst (put_patient (fst (post_patient initial_store rex_request))
                                 ''PaCPC-10000'' phone_update)) ''PaCPC-10000''
               = (fst (put_patient (fst (post_patient initial_store rex_request))
                         ''PaCPC-10000'' phone_update),
                  Success (Patient_row p'))
         \<and> patient_field ''name'' p' = JStr ''Rex''
         \<and> patient_field ''type'' p' = JStr ''Canine''
         \<and> patient_field ''breed'' p' = JStr ''Beagle''
         \<and> patient_field ''age'' p' = JStr ''4''
         \<and> patient_field ''owner_name'' p' = JStr ''Asha'')"
proof -
  let ?s1 = "fst (post_patient initial_store rex_request)"
  have created: "patients ?s1 = [rex]"
    by (simp add: post_patient_def generatePatientId_def nextCounter_def patient_id_of_def
          patient_insert_def patient_texts_def new_patient_def patient_bound_def
          patient_getById_def thrown_def js_or_def rex_request_def rex_def
          eval_strings eval_stores eval_parse)
  have found: "patient_getById ?s1 [JStr ''PaCPC-10000'', JStr ''PaCPC-10000''] = Inr (Some rex)"
    by (simp add: patient_getById_def created) (simp add: patient_matches_def rex_def)
  have idp: "p_id rex = ''PaCPC-10000''" by (simp add: rex_def)
  have ok: "patient_row_ok rex"
    by (simp add: patient_row_ok_def patient_texts_def column_value_def real_value_def rex_def)
  from put_patient_keeps_absent_fields[OF found idp ok, of phone_update]
  obtain p' where g: "get_patient (fst (put_patient ?s1 ''PaCPC-10000'' phone_update)) ''PaCPC-10000''
               = (fst (put_patient ?s1 ''PaCPC-10000'' phone_update), Success (Patient_row p'))"
    and keep: "\<forall>k. map_of phone_update k = None \<longrightarrow> patient_field k p' = patient_field k rex"
    by blast
  have absent: "map_of phone_update ''name'' = None" "map_of phone_update ''type'' = None"
    "map_of phone_update ''breed'' = None" "map_of phone_update ''age'' = None"
    "map_of phone_update ''owner_name'' = None"
    by (simp_all add: phone_update_def)
  have before: "patient_field ''name'' rex = JStr ''Rex''"
    "patient_field ''type'' rex = JStr ''Canine''"
    "patient_field ''breed'' rex = JStr ''Beagle''" "patient_field ''age'' rex = JStr ''4''"
    "patient_field ''owner_name'' rex = JStr ''Asha''"
    by (simp_all add: patient_field_def rex_def)
  from keep absent have "patient_field ''name'' p' = patient_field ''name'' rex"
    "patient_field ''type'' p' = patient_field ''type'' rex"
    "patient_field ''breed'' p' = patient_field ''breed'' rex"
    "patient_field ''age'' p' = patient_field ''age'' rex"
    "patient_field ''owner_name'' p' = patient_field ''owner_name'' rex"
    by blast+
  then have after: "patient_field ''name'' p' = JStr ''Rex''"
    "patient_field ''type'' p' = JStr ''Canine''"
    "patient_field ''breed'' p' = JStr ''Beagle''" "patient_field ''age'' p' = JStr ''4''"
    "patient_field ''owner_name'' p' = JStr ''Asha''"
    unfolding before .
  from found idp ok g after show ?thesis by (intro conjI exI[of _ p'])
qed

subsection \<open>What every reachable store satisfies\<close>

text \<open>
  The assumptions made on the store above (line items belong to stored invoices, stored
  totals and patient columns hold values a column can hold) are true of the initial store
  and are kept by every handler, whatever the request.
\<close>

lemma column_value_bound_bindable: "bindable v \<Longrightarrow> column_value (bound v)"
  by (cases v) (auto simp: column_value_def)

lemma real_value_bind_real: "real_value (bind_real r)"
  by (cases r) (auto simp: real_value_def)

lemma patient_row_ok_bound:
  "list_all bindable (patient_texts p) \<Longrightarrow> patient_row_ok ((patient_bound p)\<lparr>p_patient_id := x\<rparr>)"
  by (simp add: patient_row_ok_def patient_texts_def patient_bound_def
        column_value_bound_bindable real_value_bind_real)

lemma patient_row_ok_set:
  "list_all bindable (patient_texts v) \<Longrightarrow> patient_row_ok (patient_set v r)"
  by (simp add: patient_row_ok_def patient_texts_def patient_set_def
        column_value_bound_bindable real_value_bind_real)

lemma store_ok_initial: "store_ok initial_store"
  by (simp add: store_ok_def items_reference_invoices_def eval_stores)

lemma store_ok_tables:
  assumes "store_ok s"
    and "patients s' = patients s" and "invoices s' = invoices s"
    and "invoice_items s' = invoice_items s"
  shows "store_ok s'"
  using assms by (simp add: store_ok_def items_reference_invoices_def)

lemma store_ok_nextCounter:
  assumes "store_ok s" and "nextCounter s k = Inr (n, s')"
  shows "store_ok s'"
  using nextCounter_tables[OF assms(2)] by (intro store_ok_tables[OF assms(1)]) simp_all

lemma store_ok_patient_insert:
  assumes "store_ok s" and "patient_insert s p = Inr s'"
  shows "store_ok s'"
proof -
  from assms(2) have b: "list_all bindable (patient_texts p)"
    and s': "s' = s\<lparr>patients := patients s @ [(patient_bound p)\<lparr>p_patient_id := None\<rparr>]\<rparr>"
    by (auto simp: patient_insert_def split: if_splits)
  from assms(1) patient_row_ok_bound[OF b] show ?thesis
    by (simp add: s' store_ok_def items_reference_invoices_def)
qed

lemma store_ok_patient_update:
  assumes "store_ok s" and "patient_update s v = Inr s'"
  shows "store_ok s'"
proof -
  from assms(2) have b: "list_all bindable (patient_texts v)"
    and s': "s' = s\<lparr>patients := map (\<lambda>r. if p_id r = p_id v then patient_set v r else r)
                                         (patients s)\<rparr>"
    by (auto simp: patient_update_def split: if_splits)
  from assms(1) patient_row_ok_set[OF b] show ?thesis
    by (auto simp: s' store_ok_def items_reference_invoices_def list_all_iff)
qed

lemma store_ok_checkin_insert:
  assumes "store_ok s" and "checkin_insert s c = Inr s'"
  shows "store_ok s'"
  using assms(2)
  by (intro store_ok_tables[OF assms(1)]) (auto simp: checkin_insert_def split: if_splits)

lemma store_ok_checkin_updateStatus:
  assumes "store_ok s" and "checkin_updateStatus s st cid = Inr s'"
  shows "store_ok s'"
  using assms(2)
  by (intro store_ok_tables[OF assms(1)]) (auto simp: checkin_updateStatus_def split: if_splits)

lemma store_ok_checkin_delete: "store_ok s \<Longrightarrow> store_ok (checkin_delete s cid)"
  by (erule store_ok_tables) (simp_all add: checkin_delete_def)

lemma store_ok_createInvoice:
  assumes "store_ok s" and "createInvoice s iv ls = Inr (s', r)"
  shows "store_ok s'"
proof -
  note co = createInvoice_ok[OF assms(2)]
  have "real_value (i_total (invoice_bound iv))"
    by (simp add: invoice_bound_def real_value_bind_real)
  with assms(1) show ?thesis
    by (auto simp: co(1) store_ok_def items_reference_invoices_def list_all_iff item_row_def)
qed

lemma store_ok_same_refs:
  assumes ok: "store_ok s"
    and refs: "map i_ref (invoices s') = map i_ref (invoices s)"
    and tot: "map i_total (invoices s') = map i_total (invoices s)"
    and pats: "set (patients s') \<subseteq> set (patients s)"
    and items: "invoice_items s' = invoice_items s"
  shows "store_ok s'"
proof -
  have "list_all (\<lambda>iv. real_value (i_total iv)) (invoices s')
          = list_all real_value (map i_total (invoices s'))"
    by (simp add: list_all_iff)
  also have "\<dots> = list_all (\<lambda>iv. real_value (i_total iv)) (invoices s)"
    by (simp add: tot list_all_iff)
  finally have t: "list_all (\<lambda>iv. real_value (i_total iv)) (invoices s')
                     = list_all (\<lambda>iv. real_value (i_total iv)) (invoices s)" .
  from ok pats have p: "list_all patient_row_ok (patients s')"
    by (auto simp: store_ok_def list_all_iff)
  from ok show ?thesis
    by (simp add: store_ok_def items_reference_invoices_def refs t p items)
qed

lemma store_ok_invoice_updateStatus:
  assumes "store_ok s" and "invoice_updateStatus s st p b ref = Inr s'"
  shows "store_ok s'"
proof -
  from assms(2) have s': "s' = s\<lparr>invoices :=
      map (\<lambda>i. if i_ref i = ref
               then i\<lparr>i_status := bound st, i_paid_amount := bind_real p, i_balance := bind_real b\<rparr>
               else i) (invoices s)\<rparr>"
    by (auto simp: invoice_updateStatus_def split: if_splits)
  show ?thesis
    by (rule store_ok_same_refs[OF assms(1)]) (simp_all add: s' comp_def cong: map_cong)
qed

lemma store_ok_invoice_delete: "store_ok s \<Longrightarrow> store_ok (invoice_delete s ref)"
  by (auto simp: invoice_delete_def store_ok_def items_reference_invoices_def list_all_iff)

lemma store_ok_patient_delete:
  assumes "store_ok s"
  shows "store_ok (patient_delete s pid)"
  by (rule store_ok_same_refs[OF assms]) (auto simp: patient_delete_def comp_def cong: map_cong)

text \<open>The handlers.\<close>

lemma store_ok_post_patient:
  assumes "store_ok s"
  shows "store_ok (fst (post_patient s body))"
  using assms
  apply (simp add: post_patient_def generatePatientId_def split: sum.split option.split prod.split)
  apply (blast intro: store_ok_nextCounter store_ok_patient_insert)
  done

lemma store_ok_put_patient:
  assumes "store_ok s"
  shows "store_ok (fst (put_patient s pid body))"
  using assms
  apply (simp add: put_patient_def split: sum.split option.split)
  apply (blast intro: store_ok_patient_update)
  done

lemma store_ok_delete_patient: "store_ok s \<Longrightarrow> store_ok (fst (delete_patient s pid))"
  by (simp add: delete_patient_throws)

lemma store_ok_post_checkin:
  assumes "store_ok s"
  shows "store_ok (fst (post_checkin s now rnd body))"
  using assms
  apply (simp add: post_checkin_def Let_def split: sum.split option.split prod.split)
  apply (blast intro: store_ok_checkin_insert)
  done

lemma store_ok_patch_checkin_status:
  assumes "store_ok s"
  shows "store_ok (fst (patch_checkin_status s cid body))"
  using assms
  apply (simp add: patch_checkin_status_def Let_def split: sum.split)
  apply (blast intro: store_ok_checkin_updateStatus)
  done

lemma store_ok_delete_checkin: "store_ok s \<Longrightarrow> store_ok (fst (delete_checkin s cid))"
  by (simp add: delete_checkin_def store_ok_checkin_delete)

lemma store_ok_post_invoice:
  assumes "store_ok s"
  shows "store_ok (fst (post_invoice s year month body items))"
  using assms
  apply (simp add: post_invoice_def generateInvoiceRef_def
           split: sum.split option.split prod.split)
  apply (blast intro: store_ok_nextCounter store_ok_createInvoice)
  done

lemma store_ok_patch_invoice_status:
  assumes "store_ok s"
  shows "store_ok (fst (patch_invoice_status s ref body))"
  using assms
  apply (simp add: patch_invoice_status_def Let_def split: sum.split option.split
           split del: if_split)
  apply (blast intro: store_ok_invoice_updateStatus)
  done

lemma store_ok_delete_invoice: "store_ok s \<Longrightarrow> store_ok (fst (delete_invoice s ref))"
  by (simp add: delete_invoice_def store_ok_invoice_delete)

text \<open>A row that a lookup returns is a row of the table.\<close>

lemma found_rows_ok:
  assumes "store_ok s"
  shows "invoice_getById s ref = Some iv \<Longrightarrow> real_value (i_total iv)"
    and "patient_getById s args = Inr (Some p) \<Longrightarrow> patient_row_ok p"
    and "items_reference_invoices s"
proof -
  show "invoice_getById s ref = Some iv \<Longrightarrow> real_value (i_total iv)"
    using assms
    by (auto simp: invoice_getById_def store_ok_def list_all_iff find_Some_iff)
  show "patient_getById s args = Inr (Some p) \<Longrightarrow> patient_row_ok p"
    using assms
    by (auto simp: patient_getById_def store_ok_def list_all_iff find_Some_iff
             split: if_splits list.splits)
  show "items_reference_invoices s" using assms by (simp add: store_ok_def)
qed

end
